theory Spec2Isabelle
  imports Main "HOL-Library.AList"
begin

section \<open>Python strings\<close>

text \<open>
  A Python 2 \<^verbatim>\<open>str\<close> is a sequence of bytes, which is what \<^typ>\<open>string\<close> is;
  gadget bytes, section data and instruction texts are all modelled as \<^typ>\<open>string\<close>.
\<close>

text \<open>\<^verbatim>\<open>sub in s\<close> on strings: \<^verbatim>\<open>sub\<close> occurs in \<^verbatim>\<open>s\<close> as a contiguous slice.\<close>

fun str_contains :: "string \<Rightarrow> string \<Rightarrow> bool" where
  "str_contains sub [] = (sub = [])"
| "str_contains sub (c # cs) = (take (length sub) (c # cs) = sub \<or> str_contains sub cs)"

text \<open>\<^verbatim>\<open>sep.join(xs)\<close>.\<close>

fun str_join :: "string \<Rightarrow> string list \<Rightarrow> string" where
  "str_join sep [] = []"
| "str_join sep [x] = x"
| "str_join sep (x # y # zs) = x @ sep @ str_join sep (y # zs)"

text \<open>The ASCII white space of Python: space, tab, line feed, vertical tab, form feed, carriage return.\<close>

definition is_space :: "char \<Rightarrow> bool" where
  "is_space c = (c \<in> set [CHR '' '', CHR 0x09, CHR 0x0A, CHR 0x0B, CHR 0x0C, CHR 0x0D])"

text \<open>\<^verbatim>\<open>s.strip()\<close>.\<close>

definition py_strip :: "string \<Rightarrow> string" where
  "py_strip s = rev (dropWhile is_space (rev (dropWhile is_space s)))"

text \<open>\<^verbatim>\<open>s.lower()\<close> on ASCII letters.\<close>

definition lower_char :: "char \<Rightarrow> char" where
  "lower_char c =
     (let n = (of_char c :: nat) in if 65 \<le> n \<and> n \<le> 90 then char_of (n + 32) else c)"

definition py_lower :: "string \<Rightarrow> string" where
  "py_lower s = map lower_char s"

text \<open>
  \<^verbatim>\<open>xs[a:b]\<close> with \<^verbatim>\<open>b\<close> non-negative: a negative \<^verbatim>\<open>a\<close> counts from the end, and both
  bounds are clamped to the length.
\<close>

definition py_slice :: "'a list \<Rightarrow> int \<Rightarrow> int \<Rightarrow> 'a list" where
  "py_slice xs a b =
     (let n = int (length xs);
          lo = (if a < 0 then max (n + a) 0 else min a n);
          hi = (if b < 0 then max (n + b) 0 else min b n)
      in if lo < hi then take (nat (hi - lo)) (drop (nat lo) xs) else [])"

section \<open>Regular expressions as the source uses them\<close>

text \<open>
  The patterns of the source use literal characters, the dot, bracket classes, \<^verbatim>\<open>\S\<close>,
  the repetitions \<^verbatim>\<open>+\<close>, \<^verbatim>\<open>*\<close> and \<^verbatim>\<open>{n}\<close> (written out as \<open>n\<close> copies), and
  the anchors \<^verbatim>\<open>^\<close> and \<^verbatim>\<open>$\<close>. Groups only capture and are left out.
\<close>

datatype cls = Lit char | Dot | OneOf "char list" | Range char char | NonSpace

fun cls_ok :: "cls \<Rightarrow> char \<Rightarrow> bool" where
  "cls_ok (Lit c) x = (x = c)"
| "cls_ok Dot x = (x \<noteq> CHR 0x0A)"
| "cls_ok (OneOf cs) x = (x \<in> set cs)"
| "cls_ok (Range lo hi) x = ((of_char lo :: nat) \<le> of_char x \<and> (of_char x :: nat) \<le> of_char hi)"
| "cls_ok NonSpace x = (\<not> is_space x)"

datatype item = One cls | Plus cls | Star cls | Bol | Eol

type_synonym regex = "item list"

text \<open>
  \<open>match_len p start s\<close>: the length of the match of \<open>p\<close> at the front of \<open>s\<close> that a
  backtracking matcher with greedy repetitions finds first; \<open>start\<close> says whether the
  front of \<open>s\<close> is the beginning of the subject. \<^verbatim>\<open>$\<close> matches at the end and before a
  final line feed.
\<close>

fun match_len :: "regex \<Rightarrow> bool \<Rightarrow> string \<Rightarrow> nat option" where
  "match_len [] start s = Some 0"
| "match_len (One c # r) start [] = None"
| "match_len (One c # r) start (x # xs) =
     (if cls_ok c x then map_option Suc (match_len r False xs) else None)"
| "match_len (Plus c # r) start [] = None"
| "match_len (Plus c # r) start (x # xs) =
     (if cls_ok c x then
        (case match_len (Plus c # r) False xs of
           Some n \<Rightarrow> Some (Suc n)
         | None \<Rightarrow> map_option Suc (match_len r False xs))
      else None)"
| "match_len (Star c # r) start [] = match_len r start []"
| "match_len (Star c # r) start (x # xs) =
     (if cls_ok c x then
        (case match_len (Star c # r) False xs of
           Some n \<Rightarrow> Some (Suc n)
         | None \<Rightarrow> match_len r start (x # xs))
      else match_len r start (x # xs))"
| "match_len (Bol # r) start s = (if start then match_len r start s else None)"
| "match_len (Eol # r) start s =
     (if s = [] \<or> s = [CHR 0x0A] then match_len r start s else None)"

text \<open>\<^verbatim>\<open>pattern.match(s)\<close> as a truth value.\<close>

definition re_match :: "regex \<Rightarrow> string \<Rightarrow> bool" where
  "re_match p s = (match_len p True s \<noteq> None)"

text \<open>
  \<^verbatim>\<open>[m.start() for m in re.finditer(p, s)]\<close>: the starts of the non-overlapping matches,
  left to right. \<open>pos\<close> is the offset of the front of the string, \<open>skip\<close> the number of
  characters the previous match still covers.
\<close>

fun finditer_aux :: "regex \<Rightarrow> nat \<Rightarrow> nat \<Rightarrow> string \<Rightarrow> nat list" where
  "finditer_aux p pos skip [] =
     (if skip = 0 \<and> match_len p (pos = 0) [] \<noteq> None then [pos] else [])"
| "finditer_aux p pos skip (x # xs) =
     (if 0 < skip then finditer_aux p (Suc pos) (skip - 1) xs
      else (case match_len p (pos = 0) (x # xs) of
              Some n \<Rightarrow> pos # finditer_aux p (Suc pos) (n - 1) xs
            | None \<Rightarrow> finditer_aux p (Suc pos) 0 xs))"

definition finditer :: "regex \<Rightarrow> string \<Rightarrow> nat list" where
  "finditer p s = finditer_aux p 0 0 s"

text \<open>A literal string as a pattern, and \<^verbatim>\<open>c{n}\<close>.\<close>

definition lits :: "string \<Rightarrow> regex" where
  "lits s = map (\<lambda>c. One (Lit c)) s"

definition times :: "nat \<Rightarrow> cls \<Rightarrow> regex" where
  "times n c = replicate n (One c)"

section \<open>The symbolic executor, as the source consumes it\<close>

text \<open>
  The symbolic executor (amoco) is a library the source calls. The model takes it as a
  parameter: a record of the operations and attributes the source uses, over a type
  \<open>'e\<close> of symbolic expressions. A mapper is the sequence of its
  \<open>(location, expression)\<close> pairs, in iteration order.
\<close>

type_synonym 'e mapper = "('e \<times> 'e) list"

text \<open>
  A basic block: the mnemonic of its last instruction (\<^verbatim>\<open>block.instr[-1].mnemonic\<close>;
  a block is never empty) and its mapper (\<^verbatim>\<open>block.map\<close>).
\<close>

record 'e block =
  last_mnemonic :: string
  bmap :: "'e mapper"

text \<open>
  What \<^verbatim>\<open>locations_of\<close> returns: a list, a single register object, or another object.
\<close>

datatype 'e locs = LocList "'e list" | LocReg 'e | LocOther 'e

record 'e amoco =
  iterblocks :: "string \<Rightarrow> string \<Rightarrow> 'e block list"
  i_RET :: "'e mapper \<Rightarrow> 'e mapper"
  compose :: "'e mapper \<Rightarrow> 'e mapper \<Rightarrow> 'e mapper option"
  is_ptr :: "'e \<Rightarrow> bool"
  is_mem :: "'e \<Rightarrow> bool"
  is_reg :: "'e \<Rightarrow> bool"
  is_cst :: "'e \<Rightarrow> bool"
  is_op :: "'e \<Rightarrow> bool"
  a_disp :: "'e \<Rightarrow> int"
  e_size :: "'e \<Rightarrow> nat"
  e_value :: "'e \<Rightarrow> int"
  str :: "'e \<Rightarrow> string"
  extract_offset :: "'e \<Rightarrow> 'e \<times> int"
  locations_of :: "'e \<Rightarrow> 'e locs"

text \<open>
  \<open>iterblocks A arch code\<close> is \<^verbatim>\<open>list(amoco.lsweep(p).iterblocks())\<close> for the raw
  program \<^verbatim>\<open>p\<close> of \<^verbatim>\<open>code\<close> on the cpu of \<^verbatim>\<open>arch\<close>; \<open>i_RET\<close> is the effect of
  \<^verbatim>\<open>cpu.i_RET(None, block.map)\<close> on the block's mapper; \<open>compose A mp m\<close> is
  \<^verbatim>\<open>mp >>= m\<close>, \<open>None\<close> when it raises; \<open>a_disp\<close> is \<^verbatim>\<open>e.a.disp\<close>, \<open>e_size\<close> is
  \<^verbatim>\<open>e.size\<close>, \<open>e_value\<close> is \<^verbatim>\<open>e.value\<close>, \<open>is_op\<close> is \<^verbatim>\<open>isinstance(e, op)\<close>.
\<close>

section \<open>Gadgets\<close>

text \<open>
  Modelled from the spec: the class \<^verbatim>\<open>Mem\<close> of \<^verbatim>\<open>pwnlib/rop/gadgets.py\<close>, which is not
  among the sources (the memory reference of section 3: base, displacement, width in
  bits). \<open>MemV\<close> is \<^verbatim>\<open>Mem(reg_str, offset, reg_size)\<close>; the other constructors are the
  other values that \<^verbatim>\<open>classify\<close> stores in \<^verbatim>\<open>regs\<close>: a string, an integer, a list of
  strings, or the object that \<^verbatim>\<open>locations_of\<close> returned.
\<close>

datatype 'e reg_value =
    MemV string int nat
  | StrV string
  | IntV int
  | StrListV "string list"
  | RawV 'e

text \<open>
  Modelled from the spec: the class \<^verbatim>\<open>Gadget\<close> of \<^verbatim>\<open>pwnlib/rop/gadgets.py\<close>, which is
  not among the sources (the gadget of section 3). The fields are the arguments of the
  constructor call \<^verbatim>\<open>Gadget(address, insns, regs, move, bytes)\<close>; \<open>move\<close> is the stack
  pointer delta. A dictionary \<^verbatim>\<open>regs\<close> is a map from register names.
\<close>

record 'e gadget =
  address :: int
  insns :: "string list"
  regs :: "string \<rightharpoonup> 'e reg_value"
  move :: int
  bytes :: string

datatype error =
    Exception string
  | KeyError string
  | IndexError
  | TypeError
  | AttributeError
  | EvalError string

section \<open>GadgetMapper\<close>

record gadget_mapper =
  arch :: string
  align :: int

definition GadgetMapper_init :: "string \<Rightarrow> error + gadget_mapper" where
  "GadgetMapper_init a =
     (if a = ''i386'' then Inr \<lparr>arch = a, align = 4\<rparr>
      else if a = ''amd64'' then Inr \<lparr>arch = a, align = 8\<rparr>
      else if a = ''arm'' then Inr \<lparr>arch = a, align = 4\<rparr>
      else Inl (Exception (''Unsupported archtecture '' @ a @ ''.'')))"

text \<open>
  One round of the loop over the blocks: a call at the end of the block is neutralised,
  then the block's mapper is composed onto \<open>mp\<close>. Composition that raises leaves
  \<open>None\<close>, and composing onto \<open>None\<close> raises again. The assignment to
  \<^verbatim>\<open>internals["isetstate"]\<close> configures the executor and is part of \<open>iterblocks\<close>.
\<close>

definition sym_exec_block :: "'e amoco \<Rightarrow> 'e block \<Rightarrow> 'e mapper option \<Rightarrow> 'e mapper option" where
  "sym_exec_block A block mp =
     (let m = (if py_lower (last_mnemonic block) = ''call'' then i_RET A (bmap block)
               else bmap block)
      in case mp of None \<Rightarrow> None | Some mp' \<Rightarrow> compose A mp' m)"

definition sym_exec_gadget_and_get_mapper ::
  "'e amoco \<Rightarrow> gadget_mapper \<Rightarrow> string \<Rightarrow> 'e mapper option" where
  "sym_exec_gadget_and_get_mapper A self code =
     (let blocks = iterblocks A (arch self) code
      in if length blocks = 0 then None
         else fold (sym_exec_block A) blocks (Some []))"

section \<open>GadgetClassifier\<close>

record gadget_classifier = gadget_mapper +
  outs :: "string list"

definition GadgetClassifier_init :: "string list \<Rightarrow> string \<Rightarrow> error + gadget_classifier" where
  "GadgetClassifier_init os a =
     (case GadgetMapper_init a of
        Inl e \<Rightarrow> Inl e
      | Inr m \<Rightarrow> Inr \<lparr>arch = arch m, align = align m, outs = os\<rparr>)"

text \<open>The local variables of the loop of \<^verbatim>\<open>classify\<close>.\<close>

record 'e cstate =
  c_regs :: "string \<rightharpoonup> 'e reg_value"
  c_move :: int
  c_ip_move :: int

text \<open>
  The value stored in \<^verbatim>\<open>regs\<close> for an expression (the last \<^verbatim>\<open>if\<close> chain of the loop
  body). The branch for a list or a generator cannot be reached: \<^verbatim>\<open>inputs._is_mem\<close> is
  read before it, and a mapper yields expressions only.
\<close>

definition derive_reg :: "'e amoco \<Rightarrow> 'e \<Rightarrow> 'e reg_value" where
  "derive_reg A inputs =
     (if is_mem A inputs then
        (let offset = a_disp A inputs;
             reg_mem = locations_of A inputs;
             reg_str = (case reg_mem of
                          LocList l \<Rightarrow> str_join ''_'' (map (str A) l)
                        | LocReg r \<Rightarrow> str A r
                        | LocOther x \<Rightarrow> str A x);
             reg_size = e_size A inputs
         in MemV reg_str offset reg_size)
      else if is_reg A inputs then StrV (str A inputs)
      else if is_cst A inputs then IntV (e_value A inputs)
      else (case locations_of A inputs of
              LocList l \<Rightarrow> StrListV (map (str A) l)
            | LocReg r \<Rightarrow> StrV (str A r)
            | LocOther x \<Rightarrow> RawV x))"

text \<open>
  The loop body for one pair of the mapper. \<open>None\<close> is \<^verbatim>\<open>return None\<close>; \<open>Some st\<close> is
  the state after the round (also after \<^verbatim>\<open>continue\<close>). \<open>inputs\<close> is
  \<^verbatim>\<open>gadget_mapper[reg_out]\<close>, the expression paired with \<open>reg_out\<close>. Under \<^verbatim>\<open>"pc"\<close> a
  memory load sets \<^verbatim>\<open>ip_move\<close> and goes on to the register map (there is no
  \<^verbatim>\<open>continue\<close>), an \<^verbatim>\<open>op\<close> sets \<^verbatim>\<open>ip_move\<close> and continues; under \<^verbatim>\<open>"ip"\<close> an
  expression that is no memory load goes on to the register map.
\<close>

definition classify_body :: "'e amoco \<Rightarrow> 'e \<times> 'e \<Rightarrow> 'e cstate \<Rightarrow> 'e cstate option" where
  "classify_body A entry st =
     (let reg_out = fst entry; inputs = snd entry in
      if is_ptr A reg_out \<or> is_mem A reg_out then None
      else if str_contains ''flags'' (str A reg_out) \<or> str_contains ''apsr'' (str A reg_out)
        then Some st
      else if str_contains ''sp'' (str A reg_out)
        then Some (st\<lparr>c_move := snd (extract_offset A inputs)\<rparr>)
      else if str_contains ''ip'' (str A reg_out) \<and> is_mem A inputs
        then Some (st\<lparr>c_ip_move := a_disp A inputs\<rparr>)
      else if str_contains ''pc'' (str A reg_out) \<and> is_mem A inputs
        then Some (st\<lparr>c_ip_move := a_disp A inputs,
                      c_regs := (c_regs st)(str A reg_out \<mapsto> derive_reg A inputs)\<rparr>)
      else if str_contains ''pc'' (str A reg_out) \<and> is_op A inputs
        then Some (st\<lparr>c_ip_move := snd (extract_offset A inputs)\<rparr>)
      else Some (st\<lparr>c_regs := (c_regs st)(str A reg_out \<mapsto> derive_reg A inputs)\<rparr>))"

fun classify_loop :: "'e amoco \<Rightarrow> 'e mapper \<Rightarrow> 'e cstate \<Rightarrow> 'e cstate option" where
  "classify_loop A [] st = Some st"
| "classify_loop A (entry # rest) st =
     (case classify_body A entry st of
        None \<Rightarrow> None
      | Some st' \<Rightarrow> classify_loop A rest st')"

text \<open>
  \<^verbatim>\<open>if not gadget_mapper: return None\<close> holds for no mapper and for an empty one.
\<close>

definition classify :: "'e amoco \<Rightarrow> gadget_classifier \<Rightarrow> 'e gadget \<Rightarrow> 'e gadget option" where
  "classify A self g =
     (case sym_exec_gadget_and_get_mapper A (gadget_mapper.truncate self) (bytes g) of
        None \<Rightarrow> None
      | Some gadget_mapper \<Rightarrow>
          if gadget_mapper = [] then None
          else (case classify_loop A gadget_mapper
                       \<lparr>c_regs = Map.empty, c_move = 0, c_ip_move = 0\<rparr> of
                  None \<Rightarrow> None
                | Some st \<Rightarrow>
                    if c_ip_move st = c_move st - align self
                    then Some \<lparr>address = address g, insns = insns g, regs = c_regs st,
                               move = c_move st, bytes = bytes g\<rparr>
                    else None))"

section \<open>GadgetSolver\<close>











text \<open>A dictionary built from pairs in order: a later pair replaces the value of its key.\<close>

definition dict_of_items :: "('k \<times> 'v) list \<Rightarrow> ('k \<times> 'v) list" where
  "dict_of_items kvs = fold (\<lambda>kv d. AList.update (fst kv) (snd kv) d) kvs []"


section \<open>GadgetFinder\<close>

text \<open>File size more than 100kb, should be filter for performance trade off.\<close>

definition MAX_SIZE :: nat where
  "MAX_SIZE = 100"

subsection \<open>The collaborators: disassembler, image loader, file system\<close>

datatype cs_arch = CS_ARCH_X86 | CS_ARCH_ARM

datatype cs_mode = CS_MODE_32 | CS_MODE_64 | CS_MODE_ARM

datatype cs_group = CS_GRP_JUMP | CS_GRP_CALL | CS_GRP_RET | CS_GRP_INT | CS_GRP_IRET
  | CS_GRP_OTHER nat

text \<open>A decoded instruction of the disassembler (capstone).\<close>

record decode =
  mnemonic :: string
  op_str :: string
  groups :: "cs_group list"

text \<open>An executable segment: \<^verbatim>\<open>section.header.p_vaddr\<close> and \<^verbatim>\<open>section.data()\<close>.\<close>

record segment =
  p_vaddr :: int
  seg_data :: string

text \<open>
  Modelled from the spec: the class \<^verbatim>\<open>ELF\<close> of \<^verbatim>\<open>pwnlib/elf\<close>, which is not among the
  sources (the image loader of section 6). The fields are what the finder reads of an
  image: \<^verbatim>\<open>elf.arch\<close>, \<^verbatim>\<open>elf.elftype\<close>, \<^verbatim>\<open>elf.address\<close>, \<^verbatim>\<open>elf.load_addr\<close>,
  \<^verbatim>\<open>elf.executable_segments\<close>, \<^verbatim>\<open>elf.file.name\<close>, \<^verbatim>\<open>elf.file.read()\<close> and
  \<^verbatim>\<open>elf.get_data()\<close>.
\<close>

record elf =
  elf_arch :: string
  elftype :: string
  elf_address :: int
  load_addr :: int
  executable_segments :: "segment list"
  file_name :: string
  file_read :: string
  get_data :: string

text \<open>
  \<open>disasm E a m code addr\<close> is \<^verbatim>\<open>Cs(a, m).disasm(code, addr)\<close>; \<open>ELF_load\<close> is
  \<^verbatim>\<open>ELF(path)\<close>; \<open>sha256_hexdigest\<close> is \<^verbatim>\<open>hashlib.sha256(data).hexdigest()\<close>;
  \<open>gettempdir\<close> is \<^verbatim>\<open>tempfile.gettempdir()\<close>.
\<close>

record env =
  disasm :: "cs_arch \<Rightarrow> cs_mode \<Rightarrow> string \<Rightarrow> int \<Rightarrow> decode list"
  ELF_load :: "string \<Rightarrow> elf"
  sha256_hexdigest :: "string \<Rightarrow> string"
  gettempdir :: string

text \<open>
  A cache file holds text. \<open>Repr d\<close> is the text \<^verbatim>\<open>repr(d)\<close> of a dictionary of
  addresses and bytes, which \<^verbatim>\<open>eval\<close> reads back as \<open>d\<close>; \<open>Unparsable t\<close> is any text
  on which \<^verbatim>\<open>eval\<close> raises. A dictionary is the list of its items.
\<close>

type_synonym cache = "(int \<times> string) list"

datatype pyfile = Repr cache | Unparsable string

definition py_eval :: "pyfile \<Rightarrow> error + cache" where
  "py_eval f = (case f of Repr d \<Rightarrow> Inr d | Unparsable t \<Rightarrow> Inl (EvalError t))"

definition py_repr :: "cache \<Rightarrow> pyfile" where
  "py_repr d = Repr d"

type_synonym fs = "string \<rightharpoonup> pyfile"

subsection \<open>The tables of terminator patterns\<close>

text \<open>An entry \<^verbatim>\<open>[pattern, size, align]\<close> and its indices.\<close>

type_synonym gad = "regex \<times> nat \<times> nat"

definition C_OP :: "gad \<Rightarrow> regex" where
  "C_OP gad = fst gad"

definition C_SIZE :: "gad \<Rightarrow> nat" where
  "C_SIZE gad = fst (snd gad)"

definition C_ALIGN :: "gad \<Rightarrow> nat" where
  "C_ALIGN gad = snd (snd gad)"

definition x86_gadget :: "(string \<times> gad list) list" where
  "x86_gadget =
     [(''ret'', [([One (Lit (CHR 0xC3))], 1, 1),
                 (One (Lit (CHR 0xC2)) # times 2 (Range (CHR 0x00) (CHR 0xFF)), 3, 1)]),
      (''jmp'', [(One (Lit (CHR 0xFF))
                    # times 1 (OneOf [CHR 0x20, CHR 0x21, CHR 0x22, CHR 0x23, CHR 0x26, CHR 0x27]),
                  2, 1),
                 (One (Lit (CHR 0xFF))
                    # times 1 (OneOf [CHR 0xE0, CHR 0xE1, CHR 0xE2, CHR 0xE3, CHR 0xE4, CHR 0xE6,
                                      CHR 0xE7]),
                  2, 1),
                 (One (Lit (CHR 0xFF))
                    # times 1 (OneOf [CHR 0x10, CHR 0x11, CHR 0x12, CHR 0x13, CHR 0x16, CHR 0x17]),
                  2, 1)]),
      (''call'', [(One (Lit (CHR 0xFF))
                     # times 1 (OneOf [CHR 0xD0, CHR 0xD1, CHR 0xD2, CHR 0xD3, CHR 0xD4, CHR 0xD6,
                                       CHR 0xD7]),
                   2, 1)]),
      (''int'', [([One (Lit (CHR 0xCD)), One (Lit (CHR 0x80))], 2, 1)]),
      (''sysenter'', [([One (Lit (CHR 0x0F)), One (Lit (CHR 0x34))], 2, 1)]),
      (''syscall'', [([One (Lit (CHR 0x0F)), One (Lit (CHR 0x05))], 2, 1)])]"

text \<open>
  The source writes the \<^verbatim>\<open>svc\<close> pattern as \<^verbatim>\<open>"\x00-\xff]{3}\xef"\<close>, with no opening
  bracket: three literal bytes, then three times \<^verbatim>\<open>]\<close>, then \<^verbatim>\<open>\xef\<close>.
\<close>

definition arm_gadget :: "(string \<times> gad list) list" where
  "arm_gadget =
     [(''ret'', [(times 1 (Range (CHR 0x00) (CHR 0xFF))
                    @ [One (Lit (CHR 0x80)), One (Lit (CHR 0xBD)), One (Lit (CHR 0xE8))],
                  4, 4)]),
      (''svc'', [([One (Lit (CHR 0x00)), One (Lit (CHR ''-'')), One (Lit (CHR 0xFF))]
                    @ times 3 (Lit (CHR '']'')) @ [One (Lit (CHR 0xEF))],
                  4, 4)])]"

text \<open>
  \<^verbatim>\<open>reduce(lambda x, y: x + y, d.values())\<close>, stored under \<^verbatim>\<open>"all"\<close>. The order of
  the values of a Python 2 dictionary is not specified; the model takes the order of
  the source text.
\<close>

definition with_all :: "(string \<times> gad list) list \<Rightarrow> (string \<times> gad list) list" where
  "with_all d = AList.update ''all'' (concat (map snd d)) d"

definition getitem :: "(string \<times> 'v) list \<Rightarrow> string \<Rightarrow> error + 'v" where
  "getitem d k = (case map_of d k of None \<Rightarrow> Inl (KeyError k) | Some v \<Rightarrow> Inr v)"

subsection \<open>Construction\<close>

text \<open>The argument \<^verbatim>\<open>elfs\<close>: an image, a path, a list of images, or anything else.\<close>

datatype elfs_arg = AnELF elf | APath string | ELFs "elf list" | OtherArg

record finder =
  elfs :: "elf list"
  depth :: nat
  gadget_filter :: string
  f_arch :: cs_arch
  f_mode :: cs_mode
  gadget_re :: "gad list"
  need_filter :: bool

text \<open>
  The three rows of \<^verbatim>\<open>arch_mode_gadget\<close> are built before the architecture is looked
  up, so \<^verbatim>\<open>gadget_filter\<close> has to be a key of both tables.
\<close>

definition GadgetFinder_init :: "env \<Rightarrow> elfs_arg \<Rightarrow> string \<Rightarrow> nat \<Rightarrow> error + finder" where
  "GadgetFinder_init E arg flt d =
     (case (case arg of
              AnELF e \<Rightarrow> Inr [e]
            | APath p \<Rightarrow> Inr [ELF_load E p]
            | ELFs es \<Rightarrow> (if es = [] then Inl IndexError else Inr es)
            | OtherArg \<Rightarrow> Inl (Exception ''ROP: Cannot load such elfs.'')) of
        Inl e \<Rightarrow> Inl e
      | Inr es \<Rightarrow>
          (case getitem (with_all x86_gadget) flt of
             Inl e \<Rightarrow> Inl e
           | Inr x86 \<Rightarrow>
               (case getitem (with_all arm_gadget) flt of
                  Inl e \<Rightarrow> Inl e
                | Inr arm \<Rightarrow>
                    (let arch_mode_gadget =
                           [(''i386'', (CS_ARCH_X86, CS_MODE_32, x86)),
                            (''amd64'', (CS_ARCH_X86, CS_MODE_64, x86)),
                            (''arm'', (CS_ARCH_ARM, CS_MODE_ARM, arm))]
                     in case es of
                          [] \<Rightarrow> Inl IndexError
                        | e0 # _ \<Rightarrow>
                            (case map_of arch_mode_gadget (elf_arch e0) of
                               None \<Rightarrow> Inl (Exception ''Architecture not supported.'')
                             | Some (a, m, re) \<Rightarrow>
                                 Inr \<lparr>elfs = es, depth = d, gadget_filter = flt, f_arch = a,
                                      f_mode = m, gadget_re = re,
                                      need_filter =
                                        (a = CS_ARCH_X86
                                         \<and> length (file_read e0) \<ge> MAX_SIZE * 1000)\<rparr>)))))"

subsection \<open>The cache\<close>

definition get_cachefile_name :: "env \<Rightarrow> elf \<Rightarrow> string" where
  "get_cachefile_name E e =
     (let sha256 = sha256_hexdigest E (get_data e);
          cachedir = gettempdir E @ ''/'' @ ''binjitsu-rop-cache''
      in cachedir @ ''/'' @ sha256)"

text \<open>
  \<^verbatim>\<open>__cache_load\<close>: \<open>Inr None\<close> when the file does not exist, an exception when
  \<^verbatim>\<open>eval\<close> raises. Gadgets are saved with their original load addresses.
\<close>

definition cache_load :: "env \<Rightarrow> elf \<Rightarrow> fs \<Rightarrow> error + cache option" where
  "cache_load E e files =
     (let filename = get_cachefile_name E e
      in case files filename of
           None \<Rightarrow> Inr None
         | Some f \<Rightarrow>
             (case py_eval f of
                Inl err \<Rightarrow> Inl err
              | Inr gadgets \<Rightarrow>
                  Inr (Some (dict_of_items
                    (map (\<lambda>kv. (fst kv - load_addr e + elf_address e, snd kv)) gadgets)))))"

definition cache_save :: "env \<Rightarrow> elf \<Rightarrow> cache \<Rightarrow> fs \<Rightarrow> fs" where
  "cache_save E e data files =
     (let data' = dict_of_items (map (\<lambda>kv. (fst kv + load_addr e - elf_address e, snd kv)) data)
      in files(get_cachefile_name E e \<mapsto> py_repr data'))"

subsection \<open>Filters\<close>

text \<open>The text of a decoded instruction: \<^verbatim>\<open>(decode.mnemonic + " " + decode.op_str).strip()\<close>.\<close>

definition insn_text :: "decode \<Rightarrow> string" where
  "insn_text d = py_strip (mnemonic d @ '' '' @ op_str d)"

text \<open>The patterns of \<^verbatim>\<open>__filter_for_big_binary_or_elf32\<close>, in the order of \<^verbatim>\<open>valid\<close>.\<close>

definition re_pop :: regex where
  "re_pop = Bol # lits ''pop '' @ times 3 Dot"

definition re_add :: regex where
  "re_add = Bol # lits ''add '' @ [One Dot] @ lits ''sp, '' @ [Plus NonSpace, Eol]"

definition re_ret :: regex where
  "re_ret = Bol # lits ''ret'' @ [Eol]"

definition re_leave :: regex where
  "re_leave = Bol # lits ''leave'' @ [Eol]"

definition re_mov :: regex where
  "re_mov = Bol # lits ''mov '' @ times 3 Dot @ lits '', '' @ times 3 Dot"

definition re_xchg :: regex where
  "re_xchg = Bol # lits ''xchg '' @ times 3 Dot @ lits '', '' @ times 3 Dot"

definition re_int80 :: regex where
  "re_int80 = lits ''int'' @ [Plus (Lit (CHR '' ''))] @ lits ''0x80''"

definition re_syscall :: regex where
  "re_syscall = Bol # lits ''syscall'' @ [Eol]"

definition re_sysenter :: regex where
  "re_sysenter = Bol # lits ''sysenter'' @ [Eol]"

definition allow_list :: "regex list" where
  "allow_list = [re_pop, re_add, re_ret, re_leave, re_xchg, re_mov, re_int80, re_syscall,
                 re_sysenter]"

definition valid :: "string \<Rightarrow> bool" where
  "valid insn = list_ex (\<lambda>pattern. re_match pattern insn) allow_list"

definition filter_for_big_binary_or_elf32 :: "'e gadget \<Rightarrow> 'e gadget list" where
  "filter_for_big_binary_or_elf32 g = (if list_all valid (insns g) then [g] else [])"

definition branch_groups :: "cs_group list" where
  "branch_groups = [CS_GRP_JUMP, CS_GRP_CALL, CS_GRP_RET, CS_GRP_INT, CS_GRP_IRET]"

text \<open>
  \<^verbatim>\<open>__checkMultiBr\<close> and \<^verbatim>\<open>__passClean\<close> read \<^verbatim>\<open>decodes[-1]\<close>; their only caller
  passes a non-empty list.
\<close>

definition checkMultiBr :: "decode list \<Rightarrow> cs_group list \<Rightarrow> nat" where
  "checkMultiBr decodes bgs =
     (if mnemonic (last decodes) = ''pop'' then 1 else 0)
     + sum_list (map (\<lambda>inst. length (filter (\<lambda>group. group \<in> set (groups inst)) bgs)) decodes)"

definition pop_pc :: regex where
  "pop_pc = Bol # lits ''pop {'' @ [Star Dot] @ lits ''pc}''"

definition passClean :: "decode list \<Rightarrow> bool \<Rightarrow> bool" where
  "passClean decodes multibr =
     (let last_instr = mnemonic (last decodes) @ '' '' @ op_str (last decodes)
      in if \<not> re_match pop_pc last_instr
            \<and> \<not> (set (groups (last decodes)) \<inter> set branch_groups \<noteq> {})
         then False
         else if \<not> multibr \<and> checkMultiBr decodes branch_groups > 1 then False
         else True)"

subsection \<open>Deduplication\<close>

fun deduplicate_loop :: "'e gadget list \<Rightarrow> 'e gadget list \<Rightarrow> string list \<Rightarrow> 'e gadget list" where
  "deduplicate_loop [] new insts = new"
| "deduplicate_loop (g # gs) new insts =
     (let i = str_join ''; '' (insns g)
      in if i \<in> set insts then deduplicate_loop gs new insts
         else deduplicate_loop gs (new @ [g]) (insts @ [i]))"

definition deduplicate :: "'e gadget list \<Rightarrow> 'e gadget list" where
  "deduplicate gs = deduplicate_loop gs [] []"

subsection \<open>Finding the gadgets of a segment\<close>

text \<open>The gadget recovered from one item of the cache, if its bytes disassemble.\<close>

definition cached_gadget :: "env \<Rightarrow> finder \<Rightarrow> int \<times> string \<Rightarrow> 'e gadget list" where
  "cached_gadget E self item =
     (let decodes = disasm E (f_arch self) (f_mode self) (snd item) (fst item);
          ins = map insn_text decodes
      in if length ins > 0
         then [\<lparr>address = fst item, insns = ins, regs = Map.empty, move = 0, bytes = snd item\<rparr>]
         else [])"

text \<open>
  One round of the innermost loop of the scan: the window that ends with the match at
  \<open>ref\<close> and starts \<open>i\<close> alignment units before it.
\<close>

definition scan_window :: "env \<Rightarrow> finder \<Rightarrow> segment \<Rightarrow> elf \<Rightarrow> gad \<Rightarrow> nat \<Rightarrow> nat \<Rightarrow> 'e gadget list" where
  "scan_window E self section e gad ref i =
     (let back_bytes = int i * int (C_ALIGN gad);
          section_start = int ref - back_bytes;
          start_address0 = p_vaddr section + section_start;
          start_address = (if elftype e = ''DYN'' then elf_address e + start_address0
                           else start_address0);
          decodes = disasm E (f_arch self) (f_mode self)
                      (py_slice (seg_data section) section_start (int ref + int (C_SIZE gad)))
                      start_address;
          ins = map insn_text decodes
      in if length ins > 0 then
           if start_address mod int (C_ALIGN gad) = 0 then
             (let bs = py_slice (seg_data section) (int ref - int i * int (C_ALIGN gad))
                         (int ref + int (C_SIZE gad));
                  onegad = \<lparr>address = start_address, insns = ins, regs = Map.empty, move = 0,
                            bytes = bs\<rparr>
              in if \<not> passClean decodes False then []
                 else if need_filter self then filter_for_big_binary_or_elf32 onegad
                 else [onegad])
           else []
         else [])"

definition scan :: "env \<Rightarrow> finder \<Rightarrow> segment \<Rightarrow> gad list \<Rightarrow> elf \<Rightarrow> 'e gadget list" where
  "scan E self section gads e =
     concat (map (\<lambda>gad.
       concat (map (\<lambda>ref.
         concat (map (\<lambda>i. scan_window E self section e gad ref i) [0..<depth self]))
         (finditer (C_OP gad) (seg_data section))))
       gads)"

text \<open>
  \<^verbatim>\<open>__find_all_gadgets\<close>: the gadgets of the cache when it is there and not empty, the
  scan of the segment otherwise.
\<close>

definition find_all_gadgets ::
  "env \<Rightarrow> finder \<Rightarrow> segment \<Rightarrow> gad list \<Rightarrow> elf \<Rightarrow> fs \<Rightarrow> error + 'e gadget list" where
  "find_all_gadgets E self section gads e files =
     (case cache_load E e files of
        Inl err \<Rightarrow> Inl err
      | Inr None \<Rightarrow> Inr (scan E self section gads e)
      | Inr (Some c) \<Rightarrow>
          if c \<noteq> [] then Inr (concat (map (cached_gadget E self) c))
          else Inr (scan E self section gads e))"

subsection \<open>Loading the gadgets of all images\<close>

fun segments_loop ::
  "env \<Rightarrow> finder \<Rightarrow> elf \<Rightarrow> fs \<Rightarrow> segment list \<Rightarrow> 'e gadget list \<Rightarrow> error + 'e gadget list" where
  "segments_loop E self e files [] gadgets = Inr gadgets"
| "segments_loop E self e files (seg # segs) gadgets =
     (case find_all_gadgets E self seg (gadget_re self) e files of
        Inl err \<Rightarrow> Inl err
      | Inr gs \<Rightarrow> segments_loop E self e files segs (gadgets @ gs))"

text \<open>\<^verbatim>\<open>data[gad.address] = gad.bytes\<close> for every gadget, from the empty dictionary.\<close>

definition build_for_cache :: "'e gadget list \<Rightarrow> cache" where
  "build_for_cache gadgets = fold (\<lambda>gad data. AList.update (address gad) (bytes gad) data) gadgets []"

text \<open>
  The loop over the images, with the file system passed along. An exception leaves the
  file system as it was when it was raised.
\<close>

fun elfs_loop ::
  "env \<Rightarrow> finder \<Rightarrow> elf list \<Rightarrow> 'e gadget list \<Rightarrow> fs \<Rightarrow> (error + 'e gadget list) \<times> fs" where
  "elfs_loop E self [] out files = (Inr out, files)"
| "elfs_loop E self (e # es) out files =
     (case segments_loop E self e files (executable_segments e) [] of
        Inl err \<Rightarrow> (Inl err, files)
      | Inr gadgets0 \<Rightarrow>
          (let gadgets = deduplicate gadgets0;
               data = build_for_cache gadgets;
               files' = cache_save E e data files
           in elfs_loop E self es (out @ gadgets) files'))"

definition load_gadgets :: "env \<Rightarrow> finder \<Rightarrow> fs \<Rightarrow> (error + 'e gadget list) \<times> fs" where
  "load_gadgets E self files = elfs_loop E self (elfs self) [] files"

text \<open>\<^verbatim>\<open>GadgetFinder(elfs, gadget_filter, depth).load_gadgets()\<close>.\<close>

definition run_load ::
  "env \<Rightarrow> elfs_arg \<Rightarrow> string \<Rightarrow> nat \<Rightarrow> fs \<Rightarrow> (error + 'e gadget list) \<times> fs" where
  "run_load E arg flt d files =
     (case GadgetFinder_init E arg flt d of
        Inl err \<Rightarrow> (Inl err, files)
      | Inr self \<Rightarrow> load_gadgets E self files)"

section \<open>Notions the claims are stated with\<close>


text \<open>
  The stack pointer delta and the instruction pointer delta that a mapper determines:
  the updates of \<^verbatim>\<open>move\<close> and \<^verbatim>\<open>ip_move\<close> of the loop of \<^verbatim>\<open>classify\<close>, taken over all
  register destinations of the mapper (a pointer or memory destination is no register
  and leaves both as they are). The pair is \<open>(sp_delta, ip_delta)\<close>.
\<close>

definition delta_body :: "'e amoco \<Rightarrow> 'e \<times> 'e \<Rightarrow> int \<times> int \<Rightarrow> int \<times> int" where
  "delta_body A entry d =
     (let reg_out = fst entry; inputs = snd entry in
      if is_ptr A reg_out \<or> is_mem A reg_out then d
      else if str_contains ''flags'' (str A reg_out) \<or> str_contains ''apsr'' (str A reg_out)
        then d
      else if str_contains ''sp'' (str A reg_out) then (snd (extract_offset A inputs), snd d)
      else if str_contains ''ip'' (str A reg_out) \<and> is_mem A inputs
        then (fst d, a_disp A inputs)
      else if str_contains ''pc'' (str A reg_out) \<and> is_mem A inputs
        then (fst d, a_disp A inputs)
      else if str_contains ''pc'' (str A reg_out) \<and> is_op A inputs
        then (fst d, snd (extract_offset A inputs))
      else d)"

definition derived_deltas :: "'e amoco \<Rightarrow> 'e mapper \<Rightarrow> int \<times> int" where
  "derived_deltas A mp = fold (delta_body A) mp (0, 0)"

definition sp_delta :: "'e amoco \<Rightarrow> 'e mapper option \<Rightarrow> int" where
  "sp_delta A mp = (case mp of None \<Rightarrow> 0 | Some m \<Rightarrow> fst (derived_deltas A m))"

definition ip_delta :: "'e amoco \<Rightarrow> 'e mapper option \<Rightarrow> int" where
  "ip_delta A mp = (case mp of None \<Rightarrow> 0 | Some m \<Rightarrow> snd (derived_deltas A m))"

text \<open>A mapper writes memory when one of its destinations is a pointer or a memory location.\<close>

definition writes_memory :: "'e amoco \<Rightarrow> 'e mapper \<Rightarrow> bool" where
  "writes_memory A mp = list_ex (\<lambda>entry. is_ptr A (fst entry) \<or> is_mem A (fst entry)) mp"

section \<open>Instances of the collaborators for concrete runs\<close>

text \<open>
  Modelled from the spec: the symbolic expressions of the executor (section 4.5): a
  constant, a register, a pointer \<open>base + disp\<close>, a memory load of a width at a pointer,
  an arithmetic expression, and any other composition of expressions.
\<close>

datatype sym =
    Cst int nat
  | Reg string nat
  | Ptr sym int
  | Mem sym int nat
  | Op string sym sym
  | Comp "sym list"

fun sym_is_ptr :: "sym \<Rightarrow> bool" where
  "sym_is_ptr (Ptr b d) = True"
| "sym_is_ptr e = False"

fun sym_is_mem :: "sym \<Rightarrow> bool" where
  "sym_is_mem (Mem b d n) = True"
| "sym_is_mem e = False"

fun sym_is_reg :: "sym \<Rightarrow> bool" where
  "sym_is_reg (Reg r n) = True"
| "sym_is_reg e = False"

fun sym_is_cst :: "sym \<Rightarrow> bool" where
  "sym_is_cst (Cst v n) = True"
| "sym_is_cst e = False"

fun sym_is_op :: "sym \<Rightarrow> bool" where
  "sym_is_op (Op f l r) = True"
| "sym_is_op e = False"

fun sym_disp :: "sym \<Rightarrow> int" where
  "sym_disp (Mem b d n) = d"
| "sym_disp (Ptr b d) = d"
| "sym_disp e = 0"

fun sym_size :: "sym \<Rightarrow> nat" where
  "sym_size (Cst v n) = n"
| "sym_size (Reg r n) = n"
| "sym_size (Ptr b d) = sym_size b"
| "sym_size (Mem b d n) = n"
| "sym_size (Op f l r) = sym_size l"
| "sym_size (Comp es) = sum_list (map sym_size es)"

fun sym_value :: "sym \<Rightarrow> int" where
  "sym_value (Cst v n) = v"
| "sym_value e = 0"

text \<open>The printed form: a register prints as its name; the other forms are abbreviated.\<close>

fun sym_str :: "sym \<Rightarrow> string" where
  "sym_str (Reg r n) = r"
| "sym_str (Cst v n) = ''<cst>''"
| "sym_str (Ptr b d) = ''('' @ sym_str b @ ''+<disp>)''"
| "sym_str (Mem b d n) = ''M('' @ sym_str b @ ''+<disp>)''"
| "sym_str (Op f l r) = ''('' @ sym_str l @ f @ sym_str r @ '')''"
| "sym_str (Comp es) = ''{ '' @ concat (map sym_str es) @ '' }''"

text \<open>
  Modelled from the spec: \<open>displacement_of\<close> (section 6) returns the base and the
  constant offset of an expression.
\<close>

fun sym_extract_offset :: "sym \<Rightarrow> sym \<times> int" where
  "sym_extract_offset (Op f l (Cst v n)) =
     (if f = ''+'' then (l, v) else if f = ''-'' then (l, - v) else (Op f l (Cst v n), 0))"
| "sym_extract_offset e = (e, 0)"

text \<open>
  Modelled from the spec: \<open>locations_of\<close> (section 6) returns the input registers that
  appear in an expression.
\<close>

fun sym_registers :: "sym \<Rightarrow> sym list" where
  "sym_registers (Cst v n) = []"
| "sym_registers (Reg r n) = [Reg r n]"
| "sym_registers (Ptr b d) = sym_registers b"
| "sym_registers (Mem b d n) = sym_registers b"
| "sym_registers (Op f l r) = sym_registers l @ sym_registers r"
| "sym_registers (Comp es) = concat (map sym_registers es)"

text \<open>
  The mappers of the gadgets used in the concrete runs, as a table from the
  architecture and the bytes. Each gadget is one block that ends with \<^verbatim>\<open>ret\<close>.
  \<^item> amd64 \<^verbatim>\<open>5f c3\<close>, \<^verbatim>\<open>pop rdi; ret\<close> (the example of the source's docstring);
  \<^item> amd64 \<^verbatim>\<open>c3\<close>, \<^verbatim>\<open>ret\<close>;
  \<^item> amd64 \<^verbatim>\<open>48 89 07 c3\<close>, \<^verbatim>\<open>mov [rdi], rax; ret\<close>;
  \<^item> amd64 \<^verbatim>\<open>48 83 c4 04 c3\<close>, \<^verbatim>\<open>add rsp, 4; ret\<close>;
  \<^item> i386 \<^verbatim>\<open>83 ec 0c c3\<close>, \<^verbatim>\<open>sub esp, 0xc; ret\<close>;
  \<^item> i386 \<^verbatim>\<open>5b bc 00 10 00 00 c3\<close>, \<^verbatim>\<open>pop ebx; mov esp, 0x1000; ret\<close>;
  \<^item> i386 \<^verbatim>\<open>b8 01 00 00 00 c3\<close>, \<^verbatim>\<open>mov eax, 1; ret\<close>.
\<close>

definition gadget_blocks :: "string \<Rightarrow> string \<Rightarrow> sym block list" where
  "gadget_blocks a code =
     (if a = ''amd64'' \<and> code = [CHR 0x5F, CHR 0xC3] then
        [\<lparr>last_mnemonic = ''ret'',
          bmap = [(Reg ''rdi'' 64, Mem (Reg ''rsp'' 64) 0 64),
                  (Reg ''rip'' 64, Mem (Reg ''rsp'' 64) 8 64),
                  (Reg ''rsp'' 64, Op ''+'' (Reg ''rsp'' 64) (Cst 16 64))]\<rparr>]
      else if a = ''amd64'' \<and> code = [CHR 0xC3] then
        [\<lparr>last_mnemonic = ''ret'',
          bmap = [(Reg ''rip'' 64, Mem (Reg ''rsp'' 64) 0 64),
                  (Reg ''rsp'' 64, Op ''+'' (Reg ''rsp'' 64) (Cst 8 64))]\<rparr>]
      else if a = ''amd64'' \<and> code = [CHR 0x48, CHR 0x89, CHR 0x07, CHR 0xC3] then
        [\<lparr>last_mnemonic = ''ret'',
          bmap = [(Ptr (Reg ''rdi'' 64) 0, Reg ''rax'' 64),
                  (Reg ''rip'' 64, Mem (Reg ''rsp'' 64) 0 64),
                  (Reg ''rsp'' 64, Op ''+'' (Reg ''rsp'' 64) (Cst 8 64))]\<rparr>]
      else if a = ''amd64'' \<and> code = [CHR 0x48, CHR 0x83, CHR 0xC4, CHR 0x04, CHR 0xC3] then
        [\<lparr>last_mnemonic = ''ret'',
          bmap = [(Reg ''rflags'' 64, Comp [Reg ''rsp'' 64]),
                  (Reg ''rip'' 64, Mem (Reg ''rsp'' 64) 4 64),
                  (Reg ''rsp'' 64, Op ''+'' (Reg ''rsp'' 64) (Cst 12 64))]\<rparr>]
      else if a = ''i386'' \<and> code = [CHR 0x83, CHR 0xEC, CHR 0x0C, CHR 0xC3] then
        [\<lparr>last_mnemonic = ''ret'',
          bmap = [(Reg ''eflags'' 32, Comp [Reg ''esp'' 32]),
                  (Reg ''eip'' 32, Mem (Reg ''esp'' 32) (- 12) 32),
                  (Reg ''esp'' 32, Op ''-'' (Reg ''esp'' 32) (Cst 8 32))]\<rparr>]
      else if a = ''i386''
              \<and> code = [CHR 0x5B, CHR 0xBC, CHR 0x00, CHR 0x10, CHR 0x00, CHR 0x00, CHR 0xC3] then
        [\<lparr>last_mnemonic = ''ret'',
          bmap = [(Reg ''ebx'' 32, Mem (Reg ''esp'' 32) 0 32),
                  (Reg ''esp'' 32, Cst 0x1004 32),
                  (Reg ''eip'' 32, Mem (Cst 0x1000 32) 0 32)]\<rparr>]
      else if a = ''i386''
              \<and> code = [CHR 0xB8, CHR 0x01, CHR 0x00, CHR 0x00, CHR 0x00, CHR 0xC3] then
        [\<lparr>last_mnemonic = ''ret'',
          bmap = [(Reg ''eax'' 32, Cst 1 32),
                  (Reg ''eip'' 32, Mem (Reg ''esp'' 32) 0 32),
                  (Reg ''esp'' 32, Op ''+'' (Reg ''esp'' 32) (Cst 4 32))]\<rparr>]
      else [])"

text \<open>
  Composition onto the empty mapper gives the block's mapper; the concrete runs execute
  one block, so no other composition is needed and none is modelled.
\<close>

definition sym_compose :: "sym mapper \<Rightarrow> sym mapper \<Rightarrow> sym mapper option" where
  "sym_compose mp m = (if mp = [] then Some m else None)"

definition amoco_sym :: "sym amoco" where
  "amoco_sym =
     \<lparr>iterblocks = gadget_blocks, i_RET = (\<lambda>m. m), compose = sym_compose,
      is_ptr = sym_is_ptr, is_mem = sym_is_mem, is_reg = sym_is_reg, is_cst = sym_is_cst,
      is_op = sym_is_op, a_disp = sym_disp, e_size = sym_size, e_value = sym_value,
      str = sym_str, extract_offset = sym_extract_offset,
      locations_of = (\<lambda>e. LocList (sym_registers e))\<rparr>"

text \<open>A gadget as the finder makes it: \<^verbatim>\<open>Gadget(address, insns, {}, 0, bytes)\<close>.\<close>

definition unclassified :: "int \<Rightarrow> string list \<Rightarrow> string \<Rightarrow> 'e gadget" where
  "unclassified a ins bs = \<lparr>address = a, insns = ins, regs = Map.empty, move = 0, bytes = bs\<rparr>"



text \<open>
  A disassembler for the concrete runs: the one-byte x86 instructions \<^verbatim>\<open>ret\<close>,
  \<^verbatim>\<open>nop\<close>, \<^verbatim>\<open>pop rdi\<close> and \<^verbatim>\<open>pop rbx\<close> (\<^verbatim>\<open>edi\<close>, \<^verbatim>\<open>ebx\<close> in 32-bit mode). Decoding
  stops at the first byte that is none of them.
\<close>

fun x86_decodes :: "cs_mode \<Rightarrow> string \<Rightarrow> decode list" where
  "x86_decodes m [] = []"
| "x86_decodes m (c # cs) =
     (if c = CHR 0xC3 then
        \<lparr>mnemonic = ''ret'', op_str = [], groups = [CS_GRP_RET]\<rparr> # x86_decodes m cs
      else if c = CHR 0x90 then
        \<lparr>mnemonic = ''nop'', op_str = [], groups = []\<rparr> # x86_decodes m cs
      else if c = CHR 0x5F then
        \<lparr>mnemonic = ''pop'', op_str = (if m = CS_MODE_64 then ''rdi'' else ''edi''),
          groups = []\<rparr> # x86_decodes m cs
      else if c = CHR 0x5B then
        \<lparr>mnemonic = ''pop'', op_str = (if m = CS_MODE_64 then ''rbx'' else ''ebx''),
          groups = []\<rparr> # x86_decodes m cs
      else [])"

definition disasm_x86 :: "cs_arch \<Rightarrow> cs_mode \<Rightarrow> string \<Rightarrow> int \<Rightarrow> decode list" where
  "disasm_x86 a m code addr = (if a = CS_ARCH_X86 then x86_decodes m code else [])"

text \<open>An image with one executable segment.\<close>

definition image :: "string \<Rightarrow> string \<Rightarrow> int \<Rightarrow> string \<Rightarrow> string \<Rightarrow> elf" where
  "image name a vaddr code file_bytes =
     \<lparr>elf_arch = a, elftype = ''EXEC'', elf_address = vaddr, load_addr = vaddr,
      executable_segments = [\<lparr>p_vaddr = vaddr, seg_data = code\<rparr>], file_name = name,
      file_read = file_bytes, get_data = file_bytes\<rparr>"

text \<open>
  Two amd64 images: one with the segment \<^verbatim>\<open>5f c3 c3\<close> (\<^verbatim>\<open>pop rdi; ret; ret\<close>) at
  \<^verbatim>\<open>0x1000\<close>, one with the segment \<^verbatim>\<open>90 c3\<close> (\<^verbatim>\<open>nop; ret\<close>) at \<^verbatim>\<open>0x2000\<close>. The
  file of each is \<open>fb\<close>.
\<close>

definition image_a :: "string \<Rightarrow> elf" where
  "image_a fb = image ''a'' ''amd64'' 0x1000 [CHR 0x5F, CHR 0xC3, CHR 0xC3] fb"

definition image_b :: "string \<Rightarrow> elf" where
  "image_b fb = image ''b'' ''amd64'' 0x2000 [CHR 0x90, CHR 0xC3] fb"

text \<open>
  The finder that \<^verbatim>\<open>GadgetFinder(es, "ret", 2)\<close> constructs for amd64 images; \<open>nf\<close> is
  its \<^verbatim>\<open>need_filter\<close>.
\<close>

definition x64_ret_finder :: "elf list \<Rightarrow> bool \<Rightarrow> finder" where
  "x64_ret_finder es nf =
     \<lparr>elfs = es, depth = 2, gadget_filter = ''ret'', f_arch = CS_ARCH_X86, f_mode = CS_MODE_64,
      gadget_re = [([One (Lit (CHR 0xC3))], 1, 1),
                   (One (Lit (CHR 0xC2)) # times 2 (Range (CHR 0x00) (CHR 0xFF)), 3, 1)],
      need_filter = nf\<rparr>"

text \<open>
  The environment of the concrete runs. The digest is taken to be injective; the
  identity stands for it.
\<close>

definition env_x86 :: env where
  "env_x86 =
     \<lparr>disasm = disasm_x86,
      ELF_load = (\<lambda>path. image path ''amd64'' 0x400000 [CHR 0xC3] [CHR 0xC3]),
      sha256_hexdigest = (\<lambda>data. data),
      gettempdir = ''/tmp''\<rparr>"

section \<open>The classifier: rejection, acceptance and the register map\<close>

subsection \<open>The loop of \<open>classify\<close>\<close>

lemma classify_loop_rejects:
  "(reg_out, inputs) \<in> set mp \<Longrightarrow> is_ptr A reg_out \<or> is_mem A reg_out
     \<Longrightarrow> classify_loop A mp st = None"
proof (induction mp arbitrary: st)
  case Nil
  then show ?case by simp
next
  case (Cons entry rest)
  show ?case
  proof (cases "classify_body A entry st")
    case None
    then show ?thesis by simp
  next
    case (Some st')
    have "entry \<noteq> (reg_out, inputs)"
      using Some Cons.prems(2) by (auto simp: classify_body_def)
    then have "(reg_out, inputs) \<in> set rest"
      using Cons.prems(1) by auto
    then have "classify_loop A rest st' = None"
      using Cons.IH Cons.prems(2) by blast
    then show ?thesis using Some by simp
  qed
qed

lemma classify_loop_writes:
  "writes_memory A mp \<Longrightarrow> classify_loop A mp st = None"
  using classify_loop_rejects [of _ _ mp A st]
  by (auto simp: writes_memory_def list_ex_iff)

lemma classify_body_deltas:
  assumes "\<not> (is_ptr A (fst entry) \<or> is_mem A (fst entry))"
  shows "\<exists>st'. classify_body A entry st = Some st'
           \<and> (c_move st', c_ip_move st') = delta_body A entry (c_move st, c_ip_move st)"
  using assms by (simp add: classify_body_def delta_body_def Let_def)

lemma classify_loop_deltas:
  "\<not> writes_memory A mp \<Longrightarrow>
     \<exists>st'. classify_loop A mp st = Some st'
       \<and> (c_move st', c_ip_move st') = fold (delta_body A) mp (c_move st, c_ip_move st)"
proof (induction mp arbitrary: st)
  case Nil
  then show ?case by simp
next
  case (Cons entry rest)
  from Cons.prems have e: "\<not> (is_ptr A (fst entry) \<or> is_mem A (fst entry))"
    and r: "\<not> writes_memory A rest"
    by (simp_all add: writes_memory_def)
  from classify_body_deltas [OF e, of st] obtain st1 where
    b: "classify_body A entry st = Some st1"
    and d: "(c_move st1, c_ip_move st1) = delta_body A entry (c_move st, c_ip_move st)"
    by blast
  from Cons.IH [OF r, of st1] obtain st' where
    l: "classify_loop A rest st1 = Some st'"
    and f: "(c_move st', c_ip_move st') = fold (delta_body A) rest (c_move st1, c_ip_move st1)"
    by blast
  show ?case using b l f d by simp
qed

lemma classify_body_keys:
  assumes "classify_body A entry st = Some st'"
    and "\<And>k. str_contains ''flags'' k \<or> str_contains ''apsr'' k \<Longrightarrow> c_regs st k = None"
    and "str_contains ''flags'' k \<or> str_contains ''apsr'' k"
  shows "c_regs st' k = None"
  using assms(1) assms(2) [OF assms(3)] assms(3)
  by (auto simp: classify_body_def Let_def split: if_splits)

lemma classify_loop_keys:
  "classify_loop A mp st = Some st'
     \<Longrightarrow> (\<And>k. str_contains ''flags'' k \<or> str_contains ''apsr'' k \<Longrightarrow> c_regs st k = None)
     \<Longrightarrow> str_contains ''flags'' k \<or> str_contains ''apsr'' k
     \<Longrightarrow> c_regs st' k = None"
proof (induction mp arbitrary: st)
  case Nil
  then show ?case by simp
next
  case (Cons entry rest)
  from Cons.prems(1) obtain st1 where
    b: "classify_body A entry st = Some st1" and l: "classify_loop A rest st1 = Some st'"
    by (auto split: option.splits)
  have "\<And>j. str_contains ''flags'' j \<or> str_contains ''apsr'' j \<Longrightarrow> c_regs st1 j = None"
    using classify_body_keys [OF b] Cons.prems(2) by blast
  then show ?case using Cons.IH [OF l] Cons.prems(3) by blast
qed

lemma align_of_init:
  "GadgetClassifier_init os a = Inr self \<Longrightarrow> align self = (if a = ''amd64'' then 8 else 4)"
  by (auto simp: GadgetClassifier_init_def GadgetMapper_init_def split: if_splits)

text \<open>
  A gadget that \<open>classify\<close> returns is the submitted one with \<open>regs\<close> and \<open>move\<close> filled
  in; its \<open>move\<close> is the stack pointer delta of its mapper, and the final test held.
\<close>

lemma classify_Some:
  assumes "classify A self g = Some g'"
  shows "\<exists>mp. sym_exec_gadget_and_get_mapper A (gadget_mapper.truncate self) (bytes g) = Some mp
           \<and> \<not> writes_memory A mp
           \<and> move g' = sp_delta A (Some mp)
           \<and> ip_delta A (Some mp) = sp_delta A (Some mp) - align self
           \<and> address g' = address g \<and> insns g' = insns g \<and> bytes g' = bytes g"
proof -
  from assms obtain mp st where
    m: "sym_exec_gadget_and_get_mapper A (gadget_mapper.truncate self) (bytes g) = Some mp"
    and l: "classify_loop A mp \<lparr>c_regs = Map.empty, c_move = 0, c_ip_move = 0\<rparr> = Some st"
    and t: "c_ip_move st = c_move st - align self"
    and g: "g' = \<lparr>address = address g, insns = insns g, regs = c_regs st, move = c_move st,
                  bytes = bytes g\<rparr>"
    by (auto simp: classify_def split: option.splits if_splits)
  have w: "\<not> writes_memory A mp"
    using classify_loop_writes [of A mp] l by auto
  from classify_loop_deltas [OF w, of "\<lparr>c_regs = Map.empty, c_move = 0, c_ip_move = 0\<rparr>"] l
  have "(c_move st, c_ip_move st) = derived_deltas A mp"
    by (auto simp: derived_deltas_def)
  then have "fst (derived_deltas A mp) = c_move st" "snd (derived_deltas A mp) = c_ip_move st"
    by (metis fst_conv, metis snd_conv)
  then show ?thesis using m w t g by (simp add: sp_delta_def ip_delta_def)
qed

subsection \<open>The mappers and classifications of the concrete gadgets\<close>

lemma amoco_sym_fields:
  "is_ptr amoco_sym = sym_is_ptr" "is_mem amoco_sym = sym_is_mem" "is_reg amoco_sym = sym_is_reg"
  "is_cst amoco_sym = sym_is_cst" "is_op amoco_sym = sym_is_op" "a_disp amoco_sym = sym_disp"
  "e_size amoco_sym = sym_size" "e_value amoco_sym = sym_value" "str amoco_sym = sym_str"
  "extract_offset amoco_sym = sym_extract_offset"
  "locations_of amoco_sym = (\<lambda>e. LocList (sym_registers e))"
  by (simp_all add: amoco_sym_def)

lemmas sym_exec_simps = sym_exec_gadget_and_get_mapper_def amoco_sym_def gadget_blocks_def
  sym_exec_block_def sym_compose_def py_lower_def lower_char_def

lemma init_amd64:
  "GadgetClassifier_init [] ''amd64'' = Inr \<lparr>arch = ''amd64'', align = 8, outs = []\<rparr>"
  by (simp add: GadgetClassifier_init_def GadgetMapper_init_def)

lemma init_i386:
  "GadgetClassifier_init [] ''i386'' = Inr \<lparr>arch = ''i386'', align = 4, outs = []\<rparr>"
  by (simp add: GadgetClassifier_init_def GadgetMapper_init_def)

lemma mapper_pop_rdi:
  "sym_exec_gadget_and_get_mapper amoco_sym \<lparr>arch = ''amd64'', align = 8\<rparr> [CHR 0x5F, CHR 0xC3]
   = Some [(Reg ''rdi'' 64, Mem (Reg ''rsp'' 64) 0 64),
           (Reg ''rip'' 64, Mem (Reg ''rsp'' 64) 8 64),
           (Reg ''rsp'' 64, Op ''+'' (Reg ''rsp'' 64) (Cst 16 64))]"
  by (simp add: sym_exec_simps)

lemma mapper_mov_store:
  "sym_exec_gadget_and_get_mapper amoco_sym \<lparr>arch = ''amd64'', align = 8\<rparr>
     [CHR 0x48, CHR 0x89, CHR 0x07, CHR 0xC3]
   = Some [(Ptr (Reg ''rdi'' 64) 0, Reg ''rax'' 64),
           (Reg ''rip'' 64, Mem (Reg ''rsp'' 64) 0 64),
           (Reg ''rsp'' 64, Op ''+'' (Reg ''rsp'' 64) (Cst 8 64))]"
  by (simp add: sym_exec_simps)

lemma mapper_add_rsp:
  "sym_exec_gadget_and_get_mapper amoco_sym \<lparr>arch = ''amd64'', align = 8\<rparr>
     [CHR 0x48, CHR 0x83, CHR 0xC4, CHR 0x04, CHR 0xC3]
   = Some [(Reg ''rflags'' 64, Comp [Reg ''rsp'' 64]),
           (Reg ''rip'' 64, Mem (Reg ''rsp'' 64) 4 64),
           (Reg ''rsp'' 64, Op ''+'' (Reg ''rsp'' 64) (Cst 12 64))]"
  by (simp add: sym_exec_simps)

lemma mapper_sub_esp:
  "sym_exec_gadget_and_get_mapper amoco_sym \<lparr>arch = ''i386'', align = 4\<rparr>
     [CHR 0x83, CHR 0xEC, CHR 0x0C, CHR 0xC3]
   = Some [(Reg ''eflags'' 32, Comp [Reg ''esp'' 32]),
           (Reg ''eip'' 32, Mem (Reg ''esp'' 32) (- 12) 32),
           (Reg ''esp'' 32, Op ''-'' (Reg ''esp'' 32) (Cst 8 32))]"
  by (simp add: sym_exec_simps)

lemma classify_add_rsp:
  "classify amoco_sym \<lparr>arch = ''amd64'', align = 8, outs = []\<rparr>
     (unclassified 0x400000 [''add rsp, 4'', ''ret'']
        [CHR 0x48, CHR 0x83, CHR 0xC4, CHR 0x04, CHR 0xC3])
   = Some \<lparr>address = 0x400000, insns = [''add rsp, 4'', ''ret''], regs = Map.empty, move = 12,
           bytes = [CHR 0x48, CHR 0x83, CHR 0xC4, CHR 0x04, CHR 0xC3]\<rparr>"
  by (simp add: classify_def unclassified_def gadget_mapper.truncate_def mapper_add_rsp
      classify_body_def amoco_sym_fields)

lemma classify_sub_esp:
  "classify amoco_sym \<lparr>arch = ''i386'', align = 4, outs = []\<rparr>
     (unclassified 0x8048000 [''sub esp, 0xc'', ''ret''] [CHR 0x83, CHR 0xEC, CHR 0x0C, CHR 0xC3])
   = Some \<lparr>address = 0x8048000, insns = [''sub esp, 0xc'', ''ret''], regs = Map.empty,
           move = - 8, bytes = [CHR 0x83, CHR 0xEC, CHR 0x0C, CHR 0xC3]\<rparr>"
  by (simp add: classify_def unclassified_def gadget_mapper.truncate_def mapper_sub_esp
      classify_body_def amoco_sym_fields)

lemma classify_mov_store:
  "classify amoco_sym \<lparr>arch = ''amd64'', align = 8, outs = []\<rparr>
     (unclassified 0x400000 [''mov qword ptr [rdi], rax'', ''ret'']
        [CHR 0x48, CHR 0x89, CHR 0x07, CHR 0xC3])
   = None"
  by (simp add: classify_def unclassified_def gadget_mapper.truncate_def mapper_mov_store
      classify_body_def amoco_sym_fields)

lemma deltas_mov_store:
  "derived_deltas amoco_sym
     [(Ptr (Reg ''rdi'' 64) 0, Reg ''rax'' 64),
      (Reg ''rip'' 64, Mem (Reg ''rsp'' 64) 0 64),
      (Reg ''rsp'' 64, Op ''+'' (Reg ''rsp'' 64) (Cst 8 64))] = (8, 0)"
  by (simp add: derived_deltas_def delta_body_def amoco_sym_fields)

lemma deltas_pop_rdi:
  "derived_deltas amoco_sym
     [(Reg ''rdi'' 64, Mem (Reg ''rsp'' 64) 0 64),
      (Reg ''rip'' 64, Mem (Reg ''rsp'' 64) 8 64),
      (Reg ''rsp'' 64, Op ''+'' (Reg ''rsp'' 64) (Cst 16 64))] = (16, 8)"
  by (simp add: derived_deltas_def delta_body_def amoco_sym_fields)

subsection \<open>Claims about the classifier\<close>

text \<open>
  C3. When the mapper of a gadget assigns to a destination that is a pointer or a
  memory location, \<open>classify\<close> returns \<open>None\<close>, whatever else the mapper holds. The
  witness is the gadget \<^verbatim>\<open>mov [rdi], rax; ret\<close>, whose mapper stores \<^verbatim>\<open>rax\<close> at the
  pointer \<^verbatim>\<open>(rdi)\<close>.
\<close>

theorem classify_rejects_memory_write:
  assumes "sym_exec_gadget_and_get_mapper A (gadget_mapper.truncate self) (bytes g) = Some mp"
    and "(reg_out, inputs) \<in> set mp"
    and "is_ptr A reg_out \<or> is_mem A reg_out"
  shows "classify A self g = None"
  using assms classify_loop_rejects [OF assms(2) assms(3)]
  by (simp add: classify_def)

theorem classify_rejects_memory_write_witness:
  "sym_exec_gadget_and_get_mapper amoco_sym
     (gadget_mapper.truncate \<lparr>arch = ''amd64'', align = 8, outs = []\<rparr>)
     (bytes (unclassified 0x400000 [''mov qword ptr [rdi], rax'', ''ret'']
        [CHR 0x48, CHR 0x89, CHR 0x07, CHR 0xC3] :: sym gadget))
   = Some [(Ptr (Reg ''rdi'' 64) 0, Reg ''rax'' 64),
           (Reg ''rip'' 64, Mem (Reg ''rsp'' 64) 0 64),
           (Reg ''rsp'' 64, Op ''+'' (Reg ''rsp'' 64) (Cst 8 64))]
   \<and> is_ptr amoco_sym (Ptr (Reg ''rdi'' 64) 0)
   \<and> classify amoco_sym \<lparr>arch = ''amd64'', align = 8, outs = []\<rparr>
       (unclassified 0x400000 [''mov qword ptr [rdi], rax'', ''ret'']
          [CHR 0x48, CHR 0x89, CHR 0x07, CHR 0xC3]) = None"
proof -
  have m: "sym_exec_gadget_and_get_mapper amoco_sym
     (gadget_mapper.truncate \<lparr>arch = ''amd64'', align = 8, outs = []\<rparr>)
     (bytes (unclassified 0x400000 [''mov qword ptr [rdi], rax'', ''ret'']
        [CHR 0x48, CHR 0x89, CHR 0x07, CHR 0xC3] :: sym gadget))
   = Some [(Ptr (Reg ''rdi'' 64) 0, Reg ''rax'' 64),
           (Reg ''rip'' 64, Mem (Reg ''rsp'' 64) 0 64),
           (Reg ''rsp'' 64, Op ''+'' (Reg ''rsp'' 64) (Cst 8 64))]"
    by (simp add: gadget_mapper.truncate_def unclassified_def mapper_mov_store)
  have p: "is_ptr amoco_sym (Ptr (Reg ''rdi'' 64) 0)"
    by (simp add: amoco_sym_fields)
  from classify_rejects_memory_write [OF m _ disjI1 [OF p], of "Reg ''rax'' 64"]
  show ?thesis using m p by simp
qed

text \<open>
  C6. In a gadget that \<open>classify\<close> returns, \<open>regs\<close> has no entry under a name that
  contains \<^verbatim>\<open>flags\<close> or \<^verbatim>\<open>apsr\<close>. The witness is \<^verbatim>\<open>add rsp, 4; ret\<close>, whose mapper
  assigns to \<^verbatim>\<open>rflags\<close>.
\<close>

theorem classify_regs_no_flags:
  assumes "classify A self g = Some g'"
    and "str_contains ''flags'' k \<or> str_contains ''apsr'' k"
  shows "regs g' k = None"
proof -
  from assms(1) obtain mp st where
    l: "classify_loop A mp \<lparr>c_regs = Map.empty, c_move = 0, c_ip_move = 0\<rparr> = Some st"
    and g: "regs g' = c_regs st"
    by (auto simp: classify_def split: option.splits if_splits)
  have "c_regs st k = None"
    using classify_loop_keys [OF l _ assms(2)] by simp
  then show ?thesis using g by simp
qed

theorem classify_regs_no_flags_witness:
  "classify amoco_sym \<lparr>arch = ''amd64'', align = 8, outs = []\<rparr>
     (unclassified 0x400000 [''add rsp, 4'', ''ret'']
        [CHR 0x48, CHR 0x83, CHR 0xC4, CHR 0x04, CHR 0xC3])
   = Some \<lparr>address = 0x400000, insns = [''add rsp, 4'', ''ret''], regs = Map.empty, move = 12,
           bytes = [CHR 0x48, CHR 0x83, CHR 0xC4, CHR 0x04, CHR 0xC3]\<rparr>
   \<and> str_contains ''flags'' ''rflags''
   \<and> regs \<lparr>address = 0x400000, insns = [''add rsp, 4'', ''ret''],
           regs = (Map.empty :: string \<rightharpoonup> sym reg_value), move = 12,
           bytes = [CHR 0x48, CHR 0x83, CHR 0xC4, CHR 0x04, CHR 0xC3]\<rparr> ''rflags'' = None"
  using classify_regs_no_flags [OF classify_add_rsp, of "''rflags''"] classify_add_rsp
  by simp

text \<open>
  C1, as stated, fails: the relation \<open>ip_delta = sp_delta - pointer width\<close> does not
  suffice for a gadget to be returned. The mapper of \<^verbatim>\<open>mov [rdi], rax; ret\<close> on amd64
  gives \<open>sp_delta = 8\<close> and \<open>ip_delta = 0\<close>, so the relation holds, and \<open>classify\<close>
  returns \<open>None\<close> because the mapper writes memory.
\<close>

theorem classify_iff_relation_counterexample:
  "GadgetClassifier_init [] ''amd64'' = Inr \<lparr>arch = ''amd64'', align = 8, outs = []\<rparr>
   \<and> classify amoco_sym \<lparr>arch = ''amd64'', align = 8, outs = []\<rparr>
       (unclassified 0x400000 [''mov qword ptr [rdi], rax'', ''ret'']
          [CHR 0x48, CHR 0x89, CHR 0x07, CHR 0xC3]) = None
   \<and> ip_delta amoco_sym (sym_exec_gadget_and_get_mapper amoco_sym
         \<lparr>arch = ''amd64'', align = 8\<rparr> [CHR 0x48, CHR 0x89, CHR 0x07, CHR 0xC3])
     = sp_delta amoco_sym (sym_exec_gadget_and_get_mapper amoco_sym
         \<lparr>arch = ''amd64'', align = 8\<rparr> [CHR 0x48, CHR 0x89, CHR 0x07, CHR 0xC3]) - 8"
  by (simp add: init_amd64 classify_mov_store mapper_mov_store ip_delta_def sp_delta_def
      deltas_mov_store)

text \<open>
  C1, amended. For a classifier of a supported architecture, \<open>classify\<close> returns a gadget
  if and only if the symbolic executor yields a mapper for the gadget's bytes, no
  destination of the mapper is a pointer or a memory location, and the mapper's
  \<open>ip_delta\<close> equals its \<open>sp_delta\<close> minus the pointer width (8 for amd64, 4 for i386
  and arm).
\<close>

theorem classify_accepts_iff:
  assumes "GadgetClassifier_init os a = Inr self"
  shows "classify A self g \<noteq> None \<longleftrightarrow>
           (\<exists>mp. sym_exec_gadget_and_get_mapper A (gadget_mapper.truncate self) (bytes g) = Some mp
              \<and> \<not> writes_memory A mp
              \<and> ip_delta A (Some mp) = sp_delta A (Some mp) - (if a = ''amd64'' then 8 else 4))"
proof (cases "sym_exec_gadget_and_get_mapper A (gadget_mapper.truncate self) (bytes g)")
  case None
  then show ?thesis by (simp add: classify_def)
next
  case (Some mp)
  note al = align_of_init [OF assms]
  show ?thesis
  proof (cases "writes_memory A mp")
    case True
    then show ?thesis using Some classify_loop_writes [OF True]
      by (simp add: classify_def)
  next
    case False
    from classify_loop_deltas [OF False, of "\<lparr>c_regs = Map.empty, c_move = 0, c_ip_move = 0\<rparr>"]
    obtain st' where
      l: "classify_loop A mp \<lparr>c_regs = Map.empty, c_move = 0, c_ip_move = 0\<rparr> = Some st'"
      and d: "(c_move st', c_ip_move st') = derived_deltas A mp"
      by (auto simp: derived_deltas_def)
    have fs: "fst (derived_deltas A mp) = c_move st'" "snd (derived_deltas A mp) = c_ip_move st'"
      using d by (metis fst_conv, metis snd_conv)
    show ?thesis
    proof (cases "mp = []")
      case True
      then show ?thesis using Some al
        by (simp add: classify_def ip_delta_def sp_delta_def derived_deltas_def)
    next
      case ne: False
      then show ?thesis using Some False l fs al
        by (simp add: classify_def ip_delta_def sp_delta_def)
    qed
  qed
qed

theorem classify_accepts_iff_witness:
  "GadgetClassifier_init [] ''amd64'' = Inr \<lparr>arch = ''amd64'', align = 8, outs = []\<rparr>
   \<and> \<not> writes_memory amoco_sym
         [(Reg ''rdi'' 64, Mem (Reg ''rsp'' 64) 0 64),
          (Reg ''rip'' 64, Mem (Reg ''rsp'' 64) 8 64),
          (Reg ''rsp'' 64, Op ''+'' (Reg ''rsp'' 64) (Cst 16 64))]
   \<and> classify amoco_sym \<lparr>arch = ''amd64'', align = 8, outs = []\<rparr>
       (unclassified 0x400000 [''pop rdi'', ''ret''] [CHR 0x5F, CHR 0xC3]) \<noteq> None"
proof -
  have w: "\<not> writes_memory amoco_sym
         [(Reg ''rdi'' 64, Mem (Reg ''rsp'' 64) 0 64),
          (Reg ''rip'' 64, Mem (Reg ''rsp'' 64) 8 64),
          (Reg ''rsp'' 64, Op ''+'' (Reg ''rsp'' 64) (Cst 16 64))]"
    by (simp add: writes_memory_def amoco_sym_fields)
  have "\<exists>mp. sym_exec_gadget_and_get_mapper amoco_sym
               (gadget_mapper.truncate \<lparr>arch = ''amd64'', align = 8, outs = []\<rparr>)
               (bytes (unclassified 0x400000 [''pop rdi'', ''ret''] [CHR 0x5F, CHR 0xC3]
                  :: sym gadget)) = Some mp
          \<and> \<not> writes_memory amoco_sym mp
          \<and> ip_delta amoco_sym (Some mp)
              = sp_delta amoco_sym (Some mp) - (if ''amd64'' = ''amd64'' then 8 else 4)"
    using w
    by (simp add: gadget_mapper.truncate_def unclassified_def mapper_pop_rdi ip_delta_def
        sp_delta_def deltas_pop_rdi)
  then show ?thesis
    using classify_accepts_iff [OF init_amd64, of amoco_sym
        "unclassified 0x400000 [''pop rdi'', ''ret''] [CHR 0x5F, CHR 0xC3]"] w init_amd64
    by simp
qed

section \<open>The solver: conditions that cannot be met\<close>











section \<open>The finder\<close>

subsection \<open>Every gadget of the finder has \<open>move = 0\<close>\<close>

lemma cached_gadget_move: "g \<in> set (cached_gadget E self item) \<Longrightarrow> move g = 0"
  by (auto simp: cached_gadget_def Let_def split: if_splits)

lemma scan_window_move: "g \<in> set (scan_window E self seg e gad ref i) \<Longrightarrow> move g = 0"
  by (auto simp: scan_window_def filter_for_big_binary_or_elf32_def Let_def split: if_splits)

lemma scan_move: "g \<in> set (scan E self seg gads e) \<Longrightarrow> move g = 0"
  by (auto simp: scan_def dest: scan_window_move)

lemma find_all_gadgets_move:
  "find_all_gadgets E self seg gads e files = Inr gs \<Longrightarrow> g \<in> set gs \<Longrightarrow> move g = 0"
  by (auto simp: find_all_gadgets_def split: sum.splits option.splits if_splits
      dest: scan_move cached_gadget_move)

lemma segments_loop_move:
  "segments_loop E self e files segs acc = Inr gs \<Longrightarrow> (\<And>g. g \<in> set acc \<Longrightarrow> move g = 0)
     \<Longrightarrow> g \<in> set gs \<Longrightarrow> move g = 0"
proof (induction segs arbitrary: acc)
  case Nil
  then show ?case by simp
next
  case (Cons seg segs)
  from Cons.prems(1) obtain found where
    f: "find_all_gadgets E self seg (gadget_re self) e files = Inr found"
    and l: "segments_loop E self e files segs (acc @ found) = Inr gs"
    by (auto split: sum.splits)
  have "\<And>h. h \<in> set (acc @ found) \<Longrightarrow> move h = 0"
    using Cons.prems(2) find_all_gadgets_move [OF f] by auto
  from Cons.IH [OF l this Cons.prems(3)] show ?case .
qed

subsection \<open>Deduplication\<close>

lemma deduplicate_loop_set:
  "set (deduplicate_loop gs new insts) \<subseteq> set new \<union> set gs"
proof (induction gs arbitrary: new insts)
  case Nil
  then show ?case by simp
next
  case (Cons g gs)
  show ?case
    using Cons.IH [of new insts] Cons.IH [of "new @ [g]" "insts @ [str_join ''; '' (insns g)]"]
    by (auto simp: Let_def)
qed

lemma deduplicate_subset: "set (deduplicate gs) \<subseteq> set gs"
  using deduplicate_loop_set [of gs "[]" "[]"] by (simp add: deduplicate_def)





subsection \<open>The loop over the images\<close>

lemma elfs_loop_move:
  "elfs_loop E self es out files = (Inr res, files') \<Longrightarrow> (\<And>g. g \<in> set out \<Longrightarrow> move g = 0)
     \<Longrightarrow> g \<in> set res \<Longrightarrow> move g = 0"
proof (induction es arbitrary: out files)
  case Nil
  then show ?case by simp
next
  case (Cons e es)
  from Cons.prems(1) obtain raw where
    s: "segments_loop E self e files (executable_segments e) [] = Inr raw"
    and r: "elfs_loop E self es (out @ deduplicate raw)
              (cache_save E e (build_for_cache (deduplicate raw)) files) = (Inr res, files')"
    by (auto simp: Let_def split: sum.splits)
  have "\<And>h. h \<in> set raw \<Longrightarrow> move h = 0"
    using segments_loop_move [OF s] by simp
  then have "\<And>h. h \<in> set (out @ deduplicate raw) \<Longrightarrow> move h = 0"
    using Cons.prems(2) deduplicate_subset [of raw] by auto
  from Cons.IH [OF r this Cons.prems(3)] show ?case .
qed

lemma load_gadgets_move:
  "load_gadgets E self files = (Inr out, files') \<Longrightarrow> g \<in> set out \<Longrightarrow> move g = 0"
  using elfs_loop_move [of E self "elfs self" "[]" files out files' g]
  by (simp add: load_gadgets_def)


subsection \<open>Concrete runs of the finder\<close>

lemma init_x64_ret:
  "GadgetFinder_init env_x86 (ELFs (image n ''amd64'' v code fb # es)) ''ret'' 2
   = Inr (x64_ret_finder (image n ''amd64'' v code fb # es) (100000 \<le> length fb))"
  by (simp add: GadgetFinder_init_def getitem_def with_all_def x86_gadget_def arm_gadget_def
      x64_ret_finder_def image_def MAX_SIZE_def)

lemmas finder_eval = x64_ret_finder_def image_a_def image_b_def image_def env_x86_def
  load_gadgets_def find_all_gadgets_def cache_load_def cache_save_def get_cachefile_name_def
  scan_def scan_window_def finditer_def C_OP_def C_SIZE_def C_ALIGN_def times_def
  disasm_x86_def insn_text_def py_strip_def is_space_def py_slice_def passClean_def
  checkMultiBr_def branch_groups_def pop_pc_def lits_def re_match_def
  deduplicate_def build_for_cache_def dict_of_items_def py_repr_def py_eval_def
  filter_for_big_binary_or_elf32_def Let_def unclassified_def numeral_2_eq_2

lemma load_a:
  "fst (load_gadgets env_x86 (x64_ret_finder [image_a fb] False) Map.empty)
   = Inr [unclassified 0x1001 [''ret''] [CHR 0xC3],
          unclassified 0x1000 [''pop rdi'', ''ret''] [CHR 0x5F, CHR 0xC3]]"
  by (simp add: finder_eval)


lemma load_b:
  "fst (load_gadgets env_x86 (x64_ret_finder [image_b fb] False) Map.empty)
   = Inr [unclassified 0x2001 [''ret''] [CHR 0xC3],
          unclassified 0x2000 [''nop'', ''ret''] [CHR 0x90, CHR 0xC3]]"
  by (simp add: finder_eval)

lemma load_b_filtered:
  "fst (load_gadgets env_x86 (x64_ret_finder [image_b fb] True) Map.empty)
   = Inr [unclassified 0x2001 [''ret''] [CHR 0xC3]]"
  by (simp add: finder_eval valid_def allow_list_def re_pop_def re_add_def re_ret_def
      re_leave_def re_mov_def re_xchg_def re_int80_def re_syscall_def re_sysenter_def)

subsection \<open>Construction and runs for the concrete images\<close>


lemma init_b:
  "GadgetFinder_init env_x86 (ELFs [image_b fb]) ''ret'' 2
   = Inr (x64_ret_finder [image_b fb] (100000 \<le> length fb))"
  by (simp add: image_b_def init_x64_ret)

lemma load_a_sym:
  "fst (load_gadgets env_x86 (x64_ret_finder [image_a ''A''] False) Map.empty
          :: (error + sym gadget list) \<times> fs)
   = Inr [unclassified 0x1001 [''ret''] [CHR 0xC3],
          unclassified 0x1000 [''pop rdi'', ''ret''] [CHR 0x5F, CHR 0xC3]]"
  by (rule load_a)

subsection \<open>Claims about the stack pointer delta\<close>

text \<open>
  C7, as stated, fails for \<open>classify\<close>: it returns \<^verbatim>\<open>sub esp, 0xc; ret\<close> on i386 with the
  stack pointer delta \<open>-8\<close>, which is negative, and \<^verbatim>\<open>add rsp, 4; ret\<close> on amd64 with the
  delta \<open>12\<close>, which is no multiple of the pointer width \<open>8\<close>.
\<close>

theorem sp_delta_counterexample:
  "map_option move
     (classify amoco_sym \<lparr>arch = ''i386'', align = 4, outs = []\<rparr>
        (unclassified 0x8048000 [''sub esp, 0xc'', ''ret'']
           [CHR 0x83, CHR 0xEC, CHR 0x0C, CHR 0xC3])) = Some (- 8)
   \<and> map_option move
       (classify amoco_sym \<lparr>arch = ''amd64'', align = 8, outs = []\<rparr>
          (unclassified 0x400000 [''add rsp, 4'', ''ret'']
             [CHR 0x48, CHR 0x83, CHR 0xC4, CHR 0x04, CHR 0xC3])) = Some 12
   \<and> \<not> (8 :: int) dvd 12"
  by (simp add: classify_sub_esp classify_add_rsp)

text \<open>
  C7, amended. Every gadget that \<open>load_gadgets\<close> returns has the stack pointer delta
  \<open>0\<close> (the finder does not classify), which is non-negative and a multiple of every
  pointer width. For a gadget that \<open>classify\<close> returns, the stack pointer delta is the
  offset that the mapper gives the stack pointer, and it equals the instruction pointer
  delta plus the pointer width; nothing bounds its sign or makes it a multiple of the
  pointer width.
\<close>

theorem sp_delta_of_results:
  "(load_gadgets E f files = (Inr out, files') \<longrightarrow> g \<in> set out \<longrightarrow> move g = 0)
   \<and> (GadgetClassifier_init os a = Inr self \<longrightarrow> classify A self c = Some c' \<longrightarrow>
        move c' = sp_delta A
                    (sym_exec_gadget_and_get_mapper A (gadget_mapper.truncate self) (bytes c))
        \<and> move c' = ip_delta A
                      (sym_exec_gadget_and_get_mapper A (gadget_mapper.truncate self) (bytes c))
                    + (if a = ''amd64'' then 8 else 4))"
proof -
  have "move g = 0" if "load_gadgets E f files = (Inr out, files')" "g \<in> set out"
    using that by (rule load_gadgets_move)
  moreover have "move c' = sp_delta A
                    (sym_exec_gadget_and_get_mapper A (gadget_mapper.truncate self) (bytes c))
        \<and> move c' = ip_delta A
                      (sym_exec_gadget_and_get_mapper A (gadget_mapper.truncate self) (bytes c))
                    + (if a = ''amd64'' then 8 else 4)"
    if i: "GadgetClassifier_init os a = Inr self" and "classify A self c = Some c'"
    using classify_Some [OF that(2)] align_of_init [OF i] by auto
  ultimately show ?thesis by blast
qed

theorem sp_delta_of_results_witness:
  "(load_gadgets env_x86 (x64_ret_finder [image_a ''A''] False) Map.empty
      :: (error + sym gadget list) \<times> fs)
   = (Inr [unclassified 0x1001 [''ret''] [CHR 0xC3],
           unclassified 0x1000 [''pop rdi'', ''ret''] [CHR 0x5F, CHR 0xC3]],
      snd (load_gadgets env_x86 (x64_ret_finder [image_a ''A''] False) Map.empty
             :: (error + sym gadget list) \<times> fs))
   \<and> move (unclassified 0x1000 [''pop rdi'', ''ret''] [CHR 0x5F, CHR 0xC3] :: sym gadget) = 0
   \<and> GadgetClassifier_init [] ''amd64'' = Inr \<lparr>arch = ''amd64'', align = 8, outs = []\<rparr>
   \<and> classify amoco_sym \<lparr>arch = ''amd64'', align = 8, outs = []\<rparr>
       (unclassified 0x400000 [''add rsp, 4'', ''ret'']
          [CHR 0x48, CHR 0x83, CHR 0xC4, CHR 0x04, CHR 0xC3])
     = Some \<lparr>address = 0x400000, insns = [''add rsp, 4'', ''ret''], regs = Map.empty, move = 12,
             bytes = [CHR 0x48, CHR 0x83, CHR 0xC4, CHR 0x04, CHR 0xC3]\<rparr>
   \<and> (12 :: int) = ip_delta amoco_sym
         (sym_exec_gadget_and_get_mapper amoco_sym \<lparr>arch = ''amd64'', align = 8\<rparr>
            [CHR 0x48, CHR 0x83, CHR 0xC4, CHR 0x04, CHR 0xC3]) + 8"
proof -
  have l: "(load_gadgets env_x86 (x64_ret_finder [image_a ''A''] False) Map.empty
      :: (error + sym gadget list) \<times> fs)
   = (Inr [unclassified 0x1001 [''ret''] [CHR 0xC3],
           unclassified 0x1000 [''pop rdi'', ''ret''] [CHR 0x5F, CHR 0xC3]],
      snd (load_gadgets env_x86 (x64_ret_finder [image_a ''A''] False) Map.empty
             :: (error + sym gadget list) \<times> fs))"
    using load_a_sym by (simp add: prod_eq_iff)
  note t = sp_delta_of_results [of env_x86 "x64_ret_finder [image_a ''A''] False" Map.empty
      "[unclassified 0x1001 [''ret''] [CHR 0xC3],
        unclassified 0x1000 [''pop rdi'', ''ret''] [CHR 0x5F, CHR 0xC3]] :: sym gadget list"
      "snd (load_gadgets env_x86 (x64_ret_finder [image_a ''A''] False) Map.empty
             :: (error + sym gadget list) \<times> fs)"
      "unclassified 0x1000 [''pop rdi'', ''ret''] [CHR 0x5F, CHR 0xC3]"
      "[]" "''amd64''" "\<lparr>arch = ''amd64'', align = 8, outs = []\<rparr>" amoco_sym
      "unclassified 0x400000 [''add rsp, 4'', ''ret'']
          [CHR 0x48, CHR 0x83, CHR 0xC4, CHR 0x04, CHR 0xC3]"
      "\<lparr>address = 0x400000, insns = [''add rsp, 4'', ''ret''], regs = Map.empty, move = 12,
             bytes = [CHR 0x48, CHR 0x83, CHR 0xC4, CHR 0x04, CHR 0xC3]\<rparr>"]
  have m: "move (unclassified 0x1000 [''pop rdi'', ''ret''] [CHR 0x5F, CHR 0xC3] :: sym gadget) = 0"
    using t l by simp
  have d: "(12 :: int) = ip_delta amoco_sym
         (sym_exec_gadget_and_get_mapper amoco_sym \<lparr>arch = ''amd64'', align = 8\<rparr>
            [CHR 0x48, CHR 0x83, CHR 0xC4, CHR 0x04, CHR 0xC3]) + 8"
    using t init_amd64 classify_add_rsp
    by (simp add: gadget_mapper.truncate_def unclassified_def)
  show ?thesis using l m d init_amd64 classify_add_rsp by simp
qed

subsection \<open>Claims about deduplication\<close>




subsection \<open>Claims about the cache\<close>

lemma find_all_gadgets_corrupt:
  assumes "files (get_cachefile_name E e) = Some f" and "py_eval f = Inl err"
  shows "find_all_gadgets E self seg gads e files = Inl err"
  using assms by (simp add: find_all_gadgets_def cache_load_def)

text \<open>
  C2, as stated, fails: \<^verbatim>\<open>eval\<close> is called with no handler. With a cache file for the
  image that does not evaluate, \<open>load_gadgets\<close> raises the error of \<^verbatim>\<open>eval\<close> and leaves
  the file system as it was: no scan, no new cache.
\<close>

theorem corrupt_cache_counterexample:
  "(run_load env_x86 (ELFs [image_b ''B'']) ''ret'' 2
      [''/tmp/binjitsu-rop-cache/B'' \<mapsto> Unparsable ''garbage'']
      :: (error + sym gadget list) \<times> fs)
   = (Inl (EvalError ''garbage''), [''/tmp/binjitsu-rop-cache/B'' \<mapsto> Unparsable ''garbage''])"
proof -
  have "(load_gadgets env_x86 (x64_ret_finder [image_b ''B''] False)
           [''/tmp/binjitsu-rop-cache/B'' \<mapsto> Unparsable ''garbage'']
           :: (error + sym gadget list) \<times> fs)
        = (Inl (EvalError ''garbage''),
           [''/tmp/binjitsu-rop-cache/B'' \<mapsto> Unparsable ''garbage''])"
    by (simp add: load_gadgets_def x64_ret_finder_def image_b_def image_def
        find_all_gadgets_def cache_load_def get_cachefile_name_def env_x86_def py_eval_def)
  then show ?thesis by (simp add: run_load_def init_b)
qed

text \<open>
  C2, amended. When the cache file of an image exists and fails to deserialize, the
  error propagates: \<^verbatim>\<open>__find_all_gadgets\<close> raises it, and \<open>load_gadgets\<close> raises it for a
  first image with an executable segment; the image is not scanned and the file system,
  the cache file included, stays as it was.
\<close>

theorem corrupt_cache_raises:
  assumes "files (get_cachefile_name E e) = Some f" and "py_eval f = Inl err"
  shows "find_all_gadgets E self seg gads e files = (Inl err :: error + 'e gadget list)
         \<and> (elfs self = e # rest \<longrightarrow> executable_segments e \<noteq> [] \<longrightarrow>
              load_gadgets E self files = ((Inl err, files) :: (error + 'e gadget list) \<times> fs))"
proof -
  have a: "\<And>s. find_all_gadgets E self s (gadget_re self) e files
             = (Inl err :: error + 'e gadget list)"
    using assms by (rule find_all_gadgets_corrupt)
  have "load_gadgets E self files = ((Inl err, files) :: (error + 'e gadget list) \<times> fs)"
    if "elfs self = e # rest" "executable_segments e \<noteq> []"
  proof -
    from that(2) obtain s segs where s: "executable_segments e = s # segs"
      by (cases "executable_segments e") auto
    have "segments_loop E self e files (executable_segments e) []
            = (Inl err :: error + 'e gadget list)"
      using a [of s] s by simp
    then show ?thesis using that(1) by (simp add: load_gadgets_def)
  qed
  moreover have "find_all_gadgets E self seg gads e files = (Inl err :: error + 'e gadget list)"
    using assms by (rule find_all_gadgets_corrupt)
  ultimately show ?thesis by blast
qed

theorem corrupt_cache_raises_witness:
  "[''/tmp/binjitsu-rop-cache/B'' \<mapsto> Unparsable ''garbage'']
     (get_cachefile_name env_x86 (image_b ''B'')) = Some (Unparsable ''garbage'')
   \<and> py_eval (Unparsable ''garbage'') = Inl (EvalError ''garbage'')
   \<and> elfs (x64_ret_finder [image_b ''B''] False) = image_b ''B'' # []
   \<and> executable_segments (image_b ''B'') \<noteq> []
   \<and> (load_gadgets env_x86 (x64_ret_finder [image_b ''B''] False)
        [''/tmp/binjitsu-rop-cache/B'' \<mapsto> Unparsable ''garbage'']
        :: (error + sym gadget list) \<times> fs)
     = (Inl (EvalError ''garbage''), [''/tmp/binjitsu-rop-cache/B'' \<mapsto> Unparsable ''garbage''])"
proof -
  have f: "[''/tmp/binjitsu-rop-cache/B'' \<mapsto> Unparsable ''garbage'']
     (get_cachefile_name env_x86 (image_b ''B'')) = Some (Unparsable ''garbage'')"
    by (simp add: get_cachefile_name_def env_x86_def image_b_def image_def)
  have p: "py_eval (Unparsable ''garbage'') = Inl (EvalError ''garbage'')"
    by (simp add: py_eval_def)
  have e: "elfs (x64_ret_finder [image_b ''B''] False) = image_b ''B'' # []"
    by (simp add: x64_ret_finder_def)
  have s: "executable_segments (image_b ''B'') \<noteq> []"
    by (simp add: image_b_def image_def)
  from corrupt_cache_raises [where files = "[''/tmp/binjitsu-rop-cache/B'' \<mapsto> Unparsable ''garbage'']"
      and self = "x64_ret_finder [image_b ''B''] False" and rest = "[]", OF f p]
  show ?thesis using f p e s by blast
qed

lemma update_fresh: "k \<notin> fst ` set al \<Longrightarrow> AList.update k v al = al @ [(k, v)]"
  by (induction al) auto

lemma fold_update_distinct:
  "distinct (map fst kvs) \<Longrightarrow> fst ` set kvs \<inter> fst ` set acc = {}
     \<Longrightarrow> fold (\<lambda>kv d. AList.update (fst kv) (snd kv) d) kvs acc = acc @ kvs"
proof (induction kvs arbitrary: acc)
  case Nil
  then show ?case by simp
next
  case (Cons kv kvs)
  have f: "fst kv \<notin> fst ` set acc" using Cons.prems(2) by auto
  have d: "distinct (map fst kvs)" using Cons.prems(1) by simp
  have i: "fst ` set kvs \<inter> fst ` set (acc @ [kv]) = {}"
    using Cons.prems by auto
  show ?case using Cons.IH [OF d i] update_fresh [OF f, of "snd kv"] by simp
qed

lemma dict_of_items_distinct: "distinct (map fst kvs) \<Longrightarrow> dict_of_items kvs = kvs"
  using fold_update_distinct [of kvs "[]"] by (simp add: dict_of_items_def)

lemma distinct_shift:
  "distinct (map fst (data :: cache))
     \<Longrightarrow> distinct (map fst (map (\<lambda>kv. (fst kv + c, snd kv)) data))"
  by (simp add: distinct_map comp_def inj_on_def)

lemma cachefile_name_address:
  "get_cachefile_name E (e\<lparr>elf_address := b\<rparr>) = get_cachefile_name E e"
  by (simp add: get_cachefile_name_def)

text \<open>
  C9. Saving a dictionary of gadgets (its addresses pairwise distinct, as the keys of a
  dictionary are) for an image at the runtime base \<open>elf_address e\<close> writes every address
  minus that base plus \<open>load_addr e\<close>. Loading the file for the same image at the runtime
  base \<open>b2\<close> gives every address shifted by exactly \<open>b2 - elf_address e\<close>, with the bytes
  unchanged, and gives the dictionary back when the base is the same.
\<close>

theorem cache_rebase_roundtrip:
  assumes "distinct (map fst data)"
  shows "cache_save E e data files (get_cachefile_name E e)
           = Some (Repr (map (\<lambda>kv. (fst kv - elf_address e + load_addr e, snd kv)) data))
       \<and> cache_load E (e\<lparr>elf_address := b2\<rparr>) (cache_save E e data files)
           = Inr (Some (map (\<lambda>kv. (fst kv + (b2 - elf_address e), snd kv)) data))
       \<and> cache_load E e (cache_save E e data files) = Inr (Some data)"
proof -
  let ?saved = "map (\<lambda>kv. (fst kv + load_addr e - elf_address e, snd kv)) data"
  have d1: "distinct (map fst ?saved)"
    using distinct_shift [OF assms, of "load_addr e - elf_address e"]
    by (simp add: algebra_simps)
  have s: "cache_save E e data files = files(get_cachefile_name E e \<mapsto> Repr ?saved)"
    by (simp add: cache_save_def py_repr_def dict_of_items_distinct [OF d1])
  have l: "\<And>b. cache_load E (e\<lparr>elf_address := b\<rparr>) (cache_save E e data files)
             = Inr (Some (map (\<lambda>kv. (fst kv + (b - elf_address e), snd kv)) data))"
  proof -
    fix b
    let ?loaded = "map (\<lambda>kv. (fst kv - load_addr e + b, snd kv)) ?saved"
    have e: "?loaded = map (\<lambda>kv. (fst kv + (b - elf_address e), snd kv)) data"
      by (simp add: comp_def)
    have "distinct (map fst ?loaded)"
      unfolding e using distinct_shift [OF assms] by blast
    then show "cache_load E (e\<lparr>elf_address := b\<rparr>) (cache_save E e data files)
             = Inr (Some (map (\<lambda>kv. (fst kv + (b - elf_address e), snd kv)) data))"
      using e
      by (simp add: s cache_load_def py_eval_def dict_of_items_distinct cachefile_name_address)
  qed
  have "cache_load E e (cache_save E e data files) = Inr (Some data)"
    using l [of "elf_address e"] by simp
  moreover have "(\<lambda>kv. (fst kv + load_addr e - elf_address e, snd kv))
      = (\<lambda>kv :: int \<times> string. (fst kv - elf_address e + load_addr e, snd kv))"
    by auto
  ultimately show ?thesis using s l [of b2] by simp
qed

theorem cache_rebase_roundtrip_witness:
  "distinct (map fst [(0x1001 :: int, [CHR 0xC3]), (0x1000, [CHR 0x5F, CHR 0xC3])])
   \<and> cache_load env_x86 ((image_a ''A'')\<lparr>elf_address := 0x7000\<rparr>)
       (cache_save env_x86 (image_a ''A'')
          [(0x1001, [CHR 0xC3]), (0x1000, [CHR 0x5F, CHR 0xC3])] Map.empty)
     = Inr (Some [(0x7001, [CHR 0xC3]), (0x7000, [CHR 0x5F, CHR 0xC3])])"
proof -
  have d: "distinct (map fst [(0x1001 :: int, [CHR 0xC3]), (0x1000, [CHR 0x5F, CHR 0xC3])])"
    by simp
  from cache_rebase_roundtrip [OF d, of env_x86 "image_a ''A''" Map.empty "0x7000"]
  show ?thesis using d by (simp add: image_a_def image_def)
qed

subsection \<open>Claims about the two paths of \<open>find_all_gadgets\<close>\<close>







lemmas allow_list_eval = valid_def allow_list_def re_pop_def re_add_def re_ret_def
  re_leave_def re_mov_def re_xchg_def re_int80_def re_syscall_def re_sysenter_def lits_def
  times_def re_match_def is_space_def


lemma ret_valid: "valid ''ret''"
  by (simp add: allow_list_eval)




subsection \<open>Claims about the allow-list for big binaries\<close>

lemma init_need_filter:
  assumes "GadgetFinder_init E arg flt d = Inr self"
  shows "need_filter self \<longleftrightarrow>
           (elf_arch (hd (elfs self)) = ''i386'' \<or> elf_arch (hd (elfs self)) = ''amd64'')
           \<and> 100 * 1000 \<le> length (file_read (hd (elfs self)))"
  using assms
  by (auto simp: GadgetFinder_init_def MAX_SIZE_def Let_def
      split: sum.splits list.splits option.splits if_splits elfs_arg.splits)

lemma scan_window_need_filter:
  "scan_window E (self\<lparr>need_filter := True\<rparr>) seg e gad ref i
   = filter (\<lambda>g. list_all valid (insns g))
       (scan_window E (self\<lparr>need_filter := False\<rparr>) seg e gad ref i)"
  by (simp add: scan_window_def filter_for_big_binary_or_elf32_def Let_def)

lemma scan_need_filter:
  "scan E (self\<lparr>need_filter := True\<rparr>) seg gads e
   = filter (\<lambda>g. list_all valid (insns g)) (scan E (self\<lparr>need_filter := False\<rparr>) seg gads e)"
  by (simp add: scan_def filter_concat comp_def scan_window_need_filter)

lemma filter_survives:
  "filter_for_big_binary_or_elf32 g = [g] \<longleftrightarrow>
     (\<forall>insn \<in> set (insns g). \<exists>pattern \<in> set allow_list. re_match pattern insn)"
  by (simp add: filter_for_big_binary_or_elf32_def valid_def list_all_iff list_ex_iff)

text \<open>
  C8, as stated, fails: the threshold of the code is \<open>100 * 1000\<close> bytes, not
  \<open>100 * 1024\<close>. For an amd64 image with a file of 100000 bytes, fewer than 100 KiB,
  the allow-list is applied: of the gadgets \<^verbatim>\<open>ret\<close> and \<^verbatim>\<open>nop; ret\<close> that the finder
  returns for a small file with the same code, only \<^verbatim>\<open>ret\<close> is left.
\<close>

theorem big_binary_threshold_counterexample:
  "length (file_read (image_b (replicate 100000 (CHR 0x00)))) < 100 * 1024
   \<and> fst (run_load env_x86 (ELFs [image_b (replicate 100000 (CHR 0x00))]) ''ret'' 2 Map.empty
           :: (error + sym gadget list) \<times> fs)
     = Inr [unclassified 0x2001 [''ret''] [CHR 0xC3]]
   \<and> fst (run_load env_x86 (ELFs [image_b ''B'']) ''ret'' 2 Map.empty
           :: (error + sym gadget list) \<times> fs)
     = Inr [unclassified 0x2001 [''ret''] [CHR 0xC3],
            unclassified 0x2000 [''nop'', ''ret''] [CHR 0x90, CHR 0xC3]]"
proof -
  have "length (file_read (image_b (replicate 100000 (CHR 0x00)))) < 100 * 1024"
    by (simp add: image_b_def image_def)
  moreover have "fst (run_load env_x86 (ELFs [image_b (replicate 100000 (CHR 0x00))]) ''ret'' 2
                        Map.empty :: (error + sym gadget list) \<times> fs)
                 = Inr [unclassified 0x2001 [''ret''] [CHR 0xC3]]"
    by (simp add: run_load_def init_b load_b_filtered)
  moreover have "fst (run_load env_x86 (ELFs [image_b ''B'']) ''ret'' 2 Map.empty
                        :: (error + sym gadget list) \<times> fs)
                 = Inr [unclassified 0x2001 [''ret''] [CHR 0xC3],
                        unclassified 0x2000 [''nop'', ''ret''] [CHR 0x90, CHR 0xC3]]"
    by (simp add: run_load_def init_b load_b)
  ultimately show ?thesis by blast
qed

text \<open>
  C8, amended. The finder sets \<open>need_filter\<close> exactly when its first image is an i386 or
  amd64 image whose file has at least \<open>100 * 1000\<close> bytes. With \<open>need_filter\<close> set, the
  scan of a segment yields exactly those gadgets of the unrestricted scan whose every
  instruction is valid, and a gadget survives the restriction if and only if each of
  its instructions is matched, from its beginning, by one of the listed regular
  expressions.
\<close>

theorem big_binary_filter:
  "(GadgetFinder_init E arg flt d = Inr self \<longrightarrow>
      (need_filter self \<longleftrightarrow>
         (elf_arch (hd (elfs self)) = ''i386'' \<or> elf_arch (hd (elfs self)) = ''amd64'')
         \<and> 100 * 1000 \<le> length (file_read (hd (elfs self)))))
   \<and> scan E (f\<lparr>need_filter := True\<rparr>) seg gads e
       = filter (\<lambda>g. list_all valid (insns g)) (scan E (f\<lparr>need_filter := False\<rparr>) seg gads e)
   \<and> (filter_for_big_binary_or_elf32 g = [g] \<longleftrightarrow>
        (\<forall>insn \<in> set (insns g). \<exists>pattern \<in> set allow_list. re_match pattern insn))"
  using init_need_filter [of E arg flt d self] scan_need_filter [of E f seg gads e]
    filter_survives [of g]
  by blast

theorem big_binary_filter_witness:
  "GadgetFinder_init env_x86 (ELFs [image_b (replicate 100000 (CHR 0x00))]) ''ret'' 2
   = Inr (x64_ret_finder [image_b (replicate 100000 (CHR 0x00))] True)
   \<and> elf_arch (hd (elfs (x64_ret_finder [image_b (replicate 100000 (CHR 0x00))] True)))
       = ''amd64''
   \<and> need_filter (x64_ret_finder [image_b (replicate 100000 (CHR 0x00))] True)
   \<and> re_match re_ret ''ret''
   \<and> filter_for_big_binary_or_elf32 (unclassified 0x2001 [''ret''] [CHR 0xC3] :: sym gadget)
       = [unclassified 0x2001 [''ret''] [CHR 0xC3]]"
proof -
  have i: "GadgetFinder_init env_x86 (ELFs [image_b (replicate 100000 (CHR 0x00))]) ''ret'' 2
           = Inr (x64_ret_finder [image_b (replicate 100000 (CHR 0x00))] True)"
    by (simp add: init_b)
  have a: "elf_arch (hd (elfs (x64_ret_finder [image_b (replicate 100000 (CHR 0x00))] True)))
             = ''amd64''"
    by (simp add: x64_ret_finder_def image_b_def image_def)
  have l: "100 * 1000 \<le> length (file_read (hd (elfs
             (x64_ret_finder [image_b (replicate 100000 (CHR 0x00))] True))))"
    by (simp add: x64_ret_finder_def image_b_def image_def)
  have r: "re_match re_ret ''ret''"
    by (simp add: re_match_def re_ret_def lits_def)
  have p: "\<forall>insn \<in> set (insns (unclassified 0x2001 [''ret''] [CHR 0xC3] :: sym gadget)).
             \<exists>pattern \<in> set allow_list. re_match pattern insn"
    using r by (simp add: unclassified_def allow_list_def)
  note t = big_binary_filter [of env_x86 "ELFs [image_b (replicate 100000 (CHR 0x00))]"
      "''ret''" 2 "x64_ret_finder [image_b (replicate 100000 (CHR 0x00))] True"
      "x64_ret_finder [image_b ''B''] True"
      "\<lparr>p_vaddr = 0x2000, seg_data = [CHR 0x90, CHR 0xC3]\<rparr>" "[]" "image_b ''B''"
      "unclassified 0x2001 [''ret''] [CHR 0xC3] :: sym gadget"]
  have n: "need_filter (x64_ret_finder [image_b (replicate 100000 (CHR 0x00))] True)"
    using t i a l by blast
  have f: "filter_for_big_binary_or_elf32 (unclassified 0x2001 [''ret''] [CHR 0xC3] :: sym gadget)
             = [unclassified 0x2001 [''ret''] [CHR 0xC3]]"
    using t p by blast
  show ?thesis using i a n r f by blast
qed

end
